theory Spec2Isabelle
  imports Complex_Main "HOL-Library.Word"
begin

unbundle bit_operations_syntax

section \<open>Peer link and time synchronisation (src/communication/peer.ts)\<close>

text \<open>
  JavaScript numbers are modelled as reals (times in milliseconds) or naturals (counts,
  ports, sequence numbers); rounding of IEEE doubles is not part of the model.
  Objects live in an explicit store: a peer is named by its address (a \<open>nat\<close>), so
  that two handlers acting on the same peer object see each other's writes.
\<close>

subsection \<open>Constants\<close>

definition TIME_DELTAS_TO_KEEP :: nat where
  "TIME_DELTAS_TO_KEEP = 100"

definition MS_DIFF_TO_UPDATE_TIME_DELTA :: real where
  "MS_DIFF_TO_UPDATE_TIME_DELTA = 5"

definition TIMESYNC_INIT_REQUEST_COUNT :: nat where
  "TIMESYNC_INIT_REQUEST_COUNT = 10"

subsection \<open>The window of recent samples\<close>

text \<open>
  Modelled from the spec: the class \<open>BasicNumericStatsTracker\<close>
  (src/utils/basicNumericStatsTracker.ts) is imported by peer.ts but is not among the
  source files. Section 4.A of the specification describes it: a fixed-capacity ring
  of samples with \<open>push(x)\<close> (evicts the oldest on overflow), \<open>full(k)\<close> (true when
  the ring holds at least \<open>k\<close> samples), \<open>median()\<close> over the current contents
  (odd count: the exact middle, even count: the average of the two middles) and
  \<open>flush()\<close>. The median of an empty ring is not described; it is \<open>None\<close> here.
\<close>

record BasicNumericStatsTracker =
  maxEntries :: nat
  buffer :: "real list"

text \<open>Modelled from the spec: a new ring of the given capacity is empty.\<close>

definition new_BasicNumericStatsTracker :: "nat \<Rightarrow> BasicNumericStatsTracker" where
  "new_BasicNumericStatsTracker n = \<lparr>maxEntries = n, buffer = []\<rparr>"

text \<open>Modelled from the spec: \<open>push(x)\<close> "evicts oldest on overflow".\<close>

definition push :: "real \<Rightarrow> BasicNumericStatsTracker \<Rightarrow> BasicNumericStatsTracker" where
  "push x t =
     (let b = buffer t @ [x]
      in t\<lparr>buffer := (if maxEntries t < length b then tl b else b)\<rparr>)"

text \<open>
  Modelled from the spec: \<open>full(k)\<close> is "true when the ring holds at least \<open>k\<close>
  samples".
\<close>

definition full :: "nat \<Rightarrow> BasicNumericStatsTracker \<Rightarrow> bool" where
  "full k t = (k \<le> length (buffer t))"

text \<open>
  Modelled from the spec: \<open>median()\<close> "over current contents (odd-count exact
  middle, even-count average of two middles)".
\<close>

definition median :: "BasicNumericStatsTracker \<Rightarrow> real option" where
  "median t =
     (let s = sort (buffer t); n = length s
      in if n = 0 then None
         else if odd n then Some (s ! (n div 2))
         else Some ((s ! (n div 2 - 1) + s ! (n div 2)) / 2))"

text \<open>Modelled from the spec: \<open>flush()\<close> empties the ring.\<close>

definition flush :: "BasicNumericStatsTracker \<Rightarrow> BasicNumericStatsTracker" where
  "flush t = t\<lparr>buffer := []\<rparr>"

subsection \<open>Peers, messages and the store\<close>

datatype peer_state = Connecting | Connected | Deleted

datatype Capacity =
  Librespot | Shairport | HttpServerAccessible | Hue | ChromecastInteraction
  | SharedStateKeeper | AirplaySink

record PeerDescriptor =
  uuid :: string
  instanceUuid :: string
  name :: string
  capacities :: "Capacity list option"
  version :: "string option"

text \<open>
  The controller messages this file handles synchronously. \<open>sharedState\<close> is opaque
  (a string here); the \<open>rpc\<close> envelope, whose handler is asynchronous and calls a
  handler table outside this file, is not modelled.
\<close>

datatype ControllerMessage =
  TimekeepRequest real
  | TimekeepResponse real real
  | PeerInfo PeerDescriptor "string option"
  | Disconnect

text \<open>
  The events emitted on a peer and on the peers manager. The \<open>controllerMessage\<close>
  events carry the message; on a peer there is the one for all messages and the one
  for the type of the message.
\<close>

datatype PeerEvent =
  StateChange | TimedeltaUpdated | TimesyncStateUpdated
  | ControllerMessageAll ControllerMessage
  | ControllerMessageOfType ControllerMessage

datatype ManagerEvent =
  PeerChange "nat option" | NewConnectedPeer nat | ConnectedPeer nat
  | ManagerControllerMessage nat ControllerMessage

text \<open>
  A peer object. Beyond the fields of the class, the record keeps what the class does
  to its surroundings, so that theorems can speak about it:
  \<^item> \<open>emitted\<close>: the events emitted on the peer, oldest first;
  \<^item> \<open>sent\<close>: the messages handed to the abstract \<open>sendControllerMessage\<close>;
  \<^item> \<open>constructorListeners\<close>: whether the listeners installed by the constructor
    are still attached (\<open>removeAllListeners\<close> detaches them);
  \<^item> \<open>connectedWaiters\<close>: the promises of \<open>waitForConnected\<close> whose listener is
    attached to \<open>stateChange\<close>, in the order of registration;
  \<^item> \<open>timekeepInterval\<close>: whether the periodic timer is armed;
  \<^item> \<open>missingPeerResponseTimeout\<close>: whether the no-response timer is armed;
  \<^item> \<open>initRequestTimeouts\<close>: the delays of the \<open>setTimeout\<close> calls made on
    entering \<open>Connected\<close>;
  \<^item> \<open>remoteDisconnects\<close>: how often \<open>onRemoteDisconnect\<close> was called.
\<close>

record Peer = PeerDescriptor +
  state :: peer_state
  timeDelta :: real
  timedeltas :: BasicNumericStatsTracker
  isLocal :: bool
  emitted :: "PeerEvent list"
  sent :: "ControllerMessage list"
  constructorListeners :: bool
  connectedWaiters :: "nat list"
  timekeepInterval :: bool
  missingPeerResponseTimeout :: bool
  initRequestTimeouts :: "nat list"
  remoteDisconnects :: nat

text \<open>
  The process: the store of peer objects, the peers manager, the queue of
  \<open>setImmediate\<close> callbacks (each remembers its peer and the \<open>state\<close> argument it
  captured), the promises resolved so far, and the clock. The \<open>k\<close>-th call of
  \<open>now()\<close> returns \<open>timeSource k\<close>.

  Modelled from the spec: the peers manager (src/communication/get_peers_manager.ts
  and the manager class) is not among the source files. Section 4.I describes it as a
  registry of peers that emits \<open>peerChange\<close>, \<open>connectedPeer\<close> and
  \<open>newConnectedPeer\<close>; \<open>registry\<close> holds the addresses of the registered peers, and
  \<open>localPeer\<close> is the address \<open>getLocalPeer()\<close> returns.
\<close>

record world =
  heap :: "nat \<Rightarrow> Peer"
  registry :: "nat list"
  localPeer :: nat
  managerEmitted :: "ManagerEvent list"
  immediates :: "(nat \<times> peer_state) list"
  resolved :: "nat list"
  sharedStates :: "string list"
  timeSource :: "nat \<Rightarrow> real"
  nowCalls :: nat

definition now :: "world \<Rightarrow> real \<times> world" where
  "now w = (timeSource w (nowCalls w), w\<lparr>nowCalls := nowCalls w + 1\<rparr>)"

definition update_peer :: "world \<Rightarrow> nat \<Rightarrow> (Peer \<Rightarrow> Peer) \<Rightarrow> world" where
  "update_peer w i f = w\<lparr>heap := (heap w)(i := f (heap w i))\<rparr>"

definition emit :: "world \<Rightarrow> nat \<Rightarrow> PeerEvent \<Rightarrow> world" where
  "emit w i e = update_peer w i (\<lambda>p. p\<lparr>emitted := emitted p @ [e]\<rparr>)"

definition managerEmit :: "world \<Rightarrow> ManagerEvent \<Rightarrow> world" where
  "managerEmit w e = w\<lparr>managerEmitted := managerEmitted w @ [e]\<rparr>"

definition sendControllerMessage :: "world \<Rightarrow> nat \<Rightarrow> ControllerMessage \<Rightarrow> world" where
  "sendControllerMessage w i m = update_peer w i (\<lambda>p. p\<lparr>sent := sent p @ [m]\<rparr>)"

text \<open>
  Modelled from the spec: \<open>getConnectedPeerByUuid\<close> belongs to the absent peers
  manager. Section 4.D speaks of "an existing peer with the same stable uuid [that] is
  already connected": the lookup returns the first registered peer with that uuid
  whose state is \<open>Connected\<close>.
\<close>

definition getConnectedPeerByUuid :: "world \<Rightarrow> string \<Rightarrow> nat option" where
  "getConnectedPeerByUuid w u =
     find (\<lambda>i. uuid (heap w i) = u \<and> state (heap w i) = Connected) (registry w)"

text \<open>
  Modelled from the spec: \<open>unregisterPeer\<close> belongs to the absent peers manager too
  ("peer transitions to Deleted, manager unregisters"): it removes the peer from the
  registry.
\<close>

definition unregisterPeer :: "world \<Rightarrow> nat \<Rightarrow> world" where
  "unregisterPeer w i = w\<lparr>registry := removeAll i (registry w)\<rparr>"

subsection \<open>setState and destroy\<close>

text \<open>
  \<open>setState\<close> returns at once when the state is unchanged or the peer is deleted;
  otherwise it assigns the state and defers the notifications with \<open>setImmediate\<close>.
\<close>

definition setState :: "world \<Rightarrow> nat \<Rightarrow> peer_state \<Rightarrow> world" where
  "setState w this s =
     (if state (heap w this) = s then w
      else if state (heap w this) = Deleted then w
      else (update_peer w this (\<lambda>p. p\<lparr>state := s\<rparr>))
             \<lparr>immediates := immediates w @ [(this, s)]\<rparr>)"

record destroy_options =
  advertiseDestroy :: bool
  canTryReconnect :: bool

definition default_destroy_options :: destroy_options where
  "default_destroy_options = \<lparr>advertiseDestroy = False, canTryReconnect = False\<rparr>"

text \<open>
  \<open>destroy\<close>, statement by statement. The hook \<open>_destroy\<close> of the base class does
  nothing. \<open>removeAllListeners()\<close> detaches every listener of the peer, those of
  \<open>waitForConnected\<close> included.
\<close>

definition destroy :: "world \<Rightarrow> nat \<Rightarrow> destroy_options \<Rightarrow> world" where
  "destroy w this opts =
     (if state (heap w this) = Deleted then w
      else
        let w1 = (if advertiseDestroy opts then sendControllerMessage w this Disconnect else w);
            w2 = setState w1 this Deleted;
            w3 = unregisterPeer w2 this;
            w4 = update_peer w3 this (\<lambda>p. p\<lparr>timekeepInterval := False\<rparr>);
            w5 = update_peer w4 this
                   (\<lambda>p. p\<lparr>constructorListeners := False, connectedWaiters := []\<rparr>);
            w6 = managerEmit w5 (PeerChange None)
        in if canTryReconnect opts
           then update_peer w6 this (\<lambda>p. p\<lparr>remoteDisconnects := remoteDisconnects p + 1\<rparr>)
           else w6)"

text \<open>A call of one of the two methods, and a sequence of calls on one peer.\<close>

datatype state_call = SetState peer_state | Destroy destroy_options

fun call :: "nat \<Rightarrow> world \<Rightarrow> state_call \<Rightarrow> world" where
  "call this w (SetState s) = setState w this s"
| "call this w (Destroy opts) = destroy w this opts"

definition calls :: "nat \<Rightarrow> world \<Rightarrow> state_call list \<Rightarrow> world" where
  "calls this w cs = foldl (call this) w cs"

text \<open>The order of the three states.\<close>

fun rank :: "peer_state \<Rightarrow> nat" where
  "rank Connecting = 0"
| "rank Connected = 1"
| "rank Deleted = 2"

subsection \<open>The constructor\<close>

text \<open>
  The constructor at address \<open>this\<close>: the field initialisers of the class, then the
  body. It attaches the message handlers and the \<open>stateChange\<close> listener, arms the
  periodic timer and tells the manager.
\<close>

definition new_Peer :: "world \<Rightarrow> nat \<Rightarrow> PeerDescriptor \<Rightarrow> world" where
  "new_Peer w this d =
     managerEmit
       (w\<lparr>heap := (heap w)(this :=
            \<lparr>uuid = uuid d, instanceUuid = instanceUuid d, name = name d,
             capacities = (case capacities d of None \<Rightarrow> Some [] | Some c \<Rightarrow> Some c),
             version = version d,
             state = Connecting, timeDelta = 0,
             timedeltas = new_BasicNumericStatsTracker TIME_DELTAS_TO_KEEP,
             isLocal = False, emitted = [], sent = [],
             constructorListeners = True, connectedWaiters = [],
             timekeepInterval = True, missingPeerResponseTimeout = False,
             initRequestTimeouts = [], remoteDisconnects = 0\<rparr>)\<rparr>)
       (PeerChange (Some this))"

subsection \<open>The timekeep handlers\<close>

definition on_timekeepRequest :: "world \<Rightarrow> nat \<Rightarrow> real \<Rightarrow> world" where
  "on_timekeepRequest w this sentAt =
     (let (respondedAt, w1) = now w
      in sendControllerMessage w1 this (TimekeepResponse sentAt respondedAt))"

text \<open>
  The handler of \<open>timekeepResponse\<close> (lines 78 to 95). \<open>Math.abs\<close> of a
  difference with no number is not greater than anything, so a missing median
  leaves the committed value alone.
\<close>

definition on_timekeepResponse :: "world \<Rightarrow> nat \<Rightarrow> real \<Rightarrow> real \<Rightarrow> world" where
  "on_timekeepResponse w this sentAt respondedAt =
     (let (receivedAt, w1) = now w;
          roundtripTime = receivedAt - sentAt;
          receivedByPeerAt = sentAt + roundtripTime / 2;
          delta = respondedAt - receivedByPeerAt;
          w2 = update_peer w1 this (\<lambda>p. p\<lparr>timedeltas := push delta (timedeltas p)\<rparr>);
          w3 = (if full TIMESYNC_INIT_REQUEST_COUNT (timedeltas (heap w2 this)) then
                  (case median (timedeltas (heap w2 this)) of
                     None \<Rightarrow> w2
                   | Some realTimeDelta \<Rightarrow>
                       if \<bar>realTimeDelta - timeDelta (heap w2 this)\<bar> > MS_DIFF_TO_UPDATE_TIME_DELTA
                       then emit (update_peer w2 this (\<lambda>p. p\<lparr>timeDelta := realTimeDelta\<rparr>))
                              this TimedeltaUpdated
                       else w2)
                else w2)
      in emit w3 this TimesyncStateUpdated)"

subsection \<open>The stateChange event\<close>

text \<open>
  The listener the constructor attaches to \<open>stateChange\<close> (lines 149 to 161): it
  flushes the ring when the peer is not connected, and on \<open>Connected\<close> tells the
  manager and, for a remote peer, schedules the initial requests 10 ms apart.
\<close>

definition constructor_stateChange_listener :: "world \<Rightarrow> nat \<Rightarrow> world" where
  "constructor_stateChange_listener w this =
     (let w1 = (if state (heap w this) \<noteq> Connected
                then update_peer w this (\<lambda>p. p\<lparr>timedeltas := flush (timedeltas p)\<rparr>)
                else w)
      in if state (heap w1 this) = Connected then
           (let w2 = managerEmit w1 (NewConnectedPeer this)
            in if \<not> isLocal (heap w2 this)
               then update_peer w2 this (\<lambda>p. p\<lparr>initRequestTimeouts :=
                      initRequestTimeouts p @ map (\<lambda>i. i * 10) [0..<TIMESYNC_INIT_REQUEST_COUNT]\<rparr>)
               else w2)
         else w1)"

text \<open>
  The listener of \<open>waitForConnected\<close> (lines 212 to 218) for the promise \<open>pid\<close>:
  it returns while the peer is connected; otherwise it detaches itself and resolves.
\<close>

definition waitForConnected_listener :: "world \<Rightarrow> nat \<Rightarrow> nat \<Rightarrow> world" where
  "waitForConnected_listener w this pid =
     (if state (heap w this) = Connected then w
      else (update_peer w this (\<lambda>p. p\<lparr>connectedWaiters := remove1 pid (connectedWaiters p)\<rparr>))
             \<lparr>resolved := resolved w @ [pid]\<rparr>)"

text \<open>
  \<open>emit('stateChange')\<close> calls the listeners attached when the emission starts, in
  the order of registration: the constructor's first.
\<close>

definition emit_stateChange :: "world \<Rightarrow> nat \<Rightarrow> world" where
  "emit_stateChange w this =
     (let waiters = connectedWaiters (heap w this);
          w1 = emit w this StateChange;
          w2 = (if constructorListeners (heap w this)
                then constructor_stateChange_listener w1 this else w1)
      in foldl (\<lambda>v pid. waitForConnected_listener v this pid) w2 waiters)"

text \<open>The callback \<open>setState\<close> hands to \<open>setImmediate\<close> (lines 174 to 180).\<close>

definition setState_immediate :: "world \<Rightarrow> nat \<times> peer_state \<Rightarrow> world" where
  "setState_immediate w cb =
     (let this = fst cb;
          w1 = emit_stateChange w this;
          w2 = managerEmit w1 (PeerChange (Some this))
      in if snd cb = Connected then managerEmit w2 (ConnectedPeer this) else w2)"

text \<open>
  One turn of the event loop: the callbacks queued so far run in order. None of them
  queues another.
\<close>

definition run_immediates :: "world \<Rightarrow> world" where
  "run_immediates w = foldl setState_immediate (w\<lparr>immediates := []\<rparr>) (immediates w)"

subsection \<open>waitForConnected and getCurrentTime\<close>

text \<open>
  \<open>waitForConnected\<close> for the promise \<open>pid\<close> it returns: resolved at once on a
  connected peer, otherwise a listener is attached to \<open>stateChange\<close>.
\<close>

definition waitForConnected :: "world \<Rightarrow> nat \<Rightarrow> nat \<Rightarrow> world" where
  "waitForConnected w this pid =
     (if state (heap w this) = Connected then w\<lparr>resolved := resolved w @ [pid]\<rparr>
      else update_peer w this (\<lambda>p. p\<lparr>connectedWaiters := connectedWaiters p @ [pid]\<rparr>))"

text \<open>
  \<open>getCurrentTime\<close>: the clock is read first, then the offset. The result is
  \<open>None\<close> when the median is asked of an empty ring.
\<close>

definition getCurrentTime :: "world \<Rightarrow> nat \<Rightarrow> bool \<Rightarrow> real option \<times> world" where
  "getCurrentTime w this realDelta =
     (if this = localPeer w then (let (t, w1) = now w in (Some t, w1))
      else
        let (t, w1) = now w;
            offset = (if realDelta then median (timedeltas (heap w1 this))
                      else Some (timeDelta (heap w1 this)))
        in (map_option (\<lambda>d. t + d) offset, w1))"

subsection \<open>The peerInfo handler\<close>

text \<open>The statements of the handler after the duplicate check (lines 108 to 120).\<close>

definition peerInfo_adopt :: "world \<Rightarrow> nat \<Rightarrow> PeerDescriptor \<Rightarrow> string option \<Rightarrow> world" where
  "peerInfo_adopt w this d sharedState =
     (let w1 = update_peer w this
                 (\<lambda>p. p\<lparr>instanceUuid := instanceUuid d, name := name d,
                         capacities := capacities d, uuid := uuid d, version := version d\<rparr>);
          w2 = (if state (heap w1 this) \<noteq> Connected then setState w1 this Connected else w1)
      in case sharedState of
           None \<Rightarrow> w2
         | Some s \<Rightarrow> w2\<lparr>sharedStates := sharedStates w2 @ [s]\<rparr>)"

text \<open>
  The handler of \<open>peerInfo\<close> (lines 98 to 121) on the link \<open>this\<close>. A connected
  peer with the same uuid and the same instance makes the link destroy itself; one
  with another instance is destroyed, advertised, before the link adopts the
  descriptor.
\<close>

definition on_peerInfo :: "world \<Rightarrow> nat \<Rightarrow> PeerDescriptor \<Rightarrow> string option \<Rightarrow> world" where
  "on_peerInfo w this d sharedState =
     (case getConnectedPeerByUuid w (uuid d) of
        None \<Rightarrow> peerInfo_adopt w this d sharedState
      | Some existingPeer \<Rightarrow>
          if instanceUuid (heap w existingPeer) = instanceUuid d
          then destroy w this default_destroy_options
          else peerInfo_adopt
                 (destroy w existingPeer \<lparr>advertiseDestroy = True, canTryReconnect = False\<rparr>)
                 this d sharedState)"

subsection \<open>What can happen to a peer\<close>

text \<open>
  \<open>_onReceivedMessage\<close> (lines 185 to 199): the no-response timer is cleared and,
  for a remote peer, armed again; then the message is emitted on the peer, for all
  messages and for its type, and on the manager. The emission for the type reaches
  the handler of the constructor, so only while the listeners of the constructor are
  attached. The class has no handler for \<open>disconnect\<close>.
\<close>

definition onReceivedMessage :: "world \<Rightarrow> nat \<Rightarrow> ControllerMessage \<Rightarrow> world" where
  "onReceivedMessage w this m =
     (let w1 = update_peer w this (\<lambda>p. p\<lparr>missingPeerResponseTimeout := \<not> isLocal p\<rparr>);
          w2 = emit w1 this (ControllerMessageAll m);
          w3 = emit w2 this (ControllerMessageOfType m);
          w4 = (if constructorListeners (heap w3 this) then
                  (case m of
                     TimekeepRequest sentAt \<Rightarrow> on_timekeepRequest w3 this sentAt
                   | TimekeepResponse sentAt respondedAt \<Rightarrow>
                       on_timekeepResponse w3 this sentAt respondedAt
                   | PeerInfo d sharedState \<Rightarrow> on_peerInfo w3 this d sharedState
                   | Disconnect \<Rightarrow> w3)
                else w3)
      in managerEmit w4 (ManagerControllerMessage this m))"

text \<open>
  The no-response timer fires (lines 201 to 203).
\<close>

definition handleNoResponseTimeout :: "world \<Rightarrow> nat \<Rightarrow> world" where
  "handleNoResponseTimeout w this =
     destroy w this \<lparr>advertiseDestroy = True, canTryReconnect = True\<rparr>"

datatype action =
  Receive ControllerMessage
  | Call state_call
  | WaitForConnected nat
  | NoResponseTimeout
  | Immediates

fun perform :: "world \<Rightarrow> nat \<times> action \<Rightarrow> world" where
  "perform w (this, Receive m) = onReceivedMessage w this m"
| "perform w (this, Call c) = call this w c"
| "perform w (this, WaitForConnected pid) = waitForConnected w this pid"
| "perform w (this, NoResponseTimeout) = handleNoResponseTimeout w this"
| "perform w (this, Immediates) = run_immediates w"

text \<open>A history: what happens, in order, each entry naming the peer it happens to.\<close>

definition run :: "world \<Rightarrow> (nat \<times> action) list \<Rightarrow> world" where
  "run w as = foldl perform w as"

text \<open>The ring of a peer respects its bound.\<close>

definition ring_ok :: "BasicNumericStatsTracker \<Rightarrow> bool" where
  "ring_ok t = (maxEntries t = TIME_DELTAS_TO_KEEP \<and> length (buffer t) \<le> TIME_DELTAS_TO_KEEP)"

text \<open>
  Whether the handler of \<open>timekeepResponse\<close>, taking \<open>w\<close> to \<open>w'\<close>, executed the
  assignment of line 89: the conditions of lines 84 and 87, on the ring after the push
  and the value committed before.
\<close>

definition reassigned :: "world \<Rightarrow> world \<Rightarrow> nat \<Rightarrow> bool" where
  "reassigned w w' this =
     (full TIMESYNC_INIT_REQUEST_COUNT (timedeltas (heap w' this)) \<and>
      (case median (timedeltas (heap w' this)) of
         None \<Rightarrow> False
       | Some m \<Rightarrow> \<bar>m - timeDelta (heap w this)\<bar> > MS_DIFF_TO_UPDATE_TIME_DELTA))"

subsection \<open>Example values\<close>

text \<open>
  A store whose addresses all hold a dead object, and the store after the constructor
  has built a remote peer at address 0.
\<close>

definition example_descriptor :: PeerDescriptor where
  "example_descriptor =
     \<lparr>uuid = ''X'', instanceUuid = ''I1'', name = ''kitchen'', capacities = None, version = None\<rparr>"

definition unallocated :: Peer where
  "unallocated =
     \<lparr>uuid = [], instanceUuid = [], name = [], capacities = None, version = None,
      state = Deleted, timeDelta = 0,
      timedeltas = new_BasicNumericStatsTracker TIME_DELTAS_TO_KEEP,
      isLocal = False, emitted = [], sent = [],
      constructorListeners = False, connectedWaiters = [],
      timekeepInterval = False, missingPeerResponseTimeout = False,
      initRequestTimeouts = [], remoteDisconnects = 0\<rparr>"

definition empty_world :: world where
  "empty_world =
     \<lparr>heap = (\<lambda>_. unallocated), registry = [], localPeer = 5, managerEmitted = [],
      immediates = [], resolved = [], sharedStates = [], timeSource = real, nowCalls = 0\<rparr>"

definition example_world :: world where
  "example_world = new_Peer empty_world 0 example_descriptor"

text \<open>Nine probes sent at time 0 and answered at the remote time 100.\<close>

definition example_history :: "(nat \<times> action) list" where
  "example_history = replicate 9 (0, Receive (TimekeepResponse 0 100))"

text \<open>
  Two links: the peer at address 0 is connected and registered under uuid \<open>X\<close>,
  instance \<open>I1\<close>; the link at address 2 was just built and is still connecting.
\<close>

definition two_peer_world :: world where
  "two_peer_world =
     (setState (new_Peer (new_Peer empty_world 0 example_descriptor) 2
        \<lparr>uuid = ''?'', instanceUuid = ''?'', name = ''?'', capacities = None, version = None\<rparr>)
        0 Connected)
     \<lparr>registry := [0, 2], immediates := []\<rparr>"

definition restarted_descriptor :: PeerDescriptor where
  "restarted_descriptor =
     \<lparr>uuid = ''X'', instanceUuid = ''I2'', name = ''kitchen'', capacities = None, version = None\<rparr>"

section \<open>AirPlay UDP transport (src/utils/vendor_integrations/airplay/airplayUdpSocket.ts)\<close>

text \<open>
  A datagram is the list of the bytes of its buffer. The source reads a received
  message through \<open>message.buffer\<close>, the underlying array buffer; the model takes
  that buffer to hold the datagram and nothing else.
\<close>

type_synonym byte = "8 word"

definition RTP_HEADER_A_EXTENSION :: byte where
  "RTP_HEADER_A_EXTENSION = 0x10"

definition RTP_HEADER_A_SOURCE :: byte where
  "RTP_HEADER_A_SOURCE = 0x0f"

definition RTP_HEADER_B_PAYLOAD_TYPE :: byte where
  "RTP_HEADER_B_PAYLOAD_TYPE = 0x7f"

definition RTP_HEADER_B_MARKER :: byte where
  "RTP_HEADER_B_MARKER = 0x80"

definition RTP_HEADER_LENGTH :: nat where
  "RTP_HEADER_LENGTH = 4"

definition RTP_NTP_TIMESTAMP_LENGTH :: nat where
  "RTP_NTP_TIMESTAMP_LENGTH = 8"

subsection \<open>The payload type enum\<close>

text \<open>
  \<open>RTP_PAYLOAD_TYPES\<close> is a numeric TypeScript enum: at run time an object that
  maps each member name to its number and each number, as a key, back to the member
  name. \<open>RTP_PAYLOAD_TYPES.sync\<close> is the number 0x54, and
  \<open>RTP_PAYLOAD_TYPES[String(0x54)]\<close> is the string \<open>'sync'\<close>.
\<close>

datatype RTP_PAYLOAD_TYPES = timingRequest | timingResponse | sync | rangeResend | audioData

fun RTP_PAYLOAD_TYPES_number :: "RTP_PAYLOAD_TYPES \<Rightarrow> nat" where
  "RTP_PAYLOAD_TYPES_number timingRequest = 0x52"
| "RTP_PAYLOAD_TYPES_number timingResponse = 0x53"
| "RTP_PAYLOAD_TYPES_number sync = 0x54"
| "RTP_PAYLOAD_TYPES_number rangeResend = 0x55"
| "RTP_PAYLOAD_TYPES_number audioData = 0x60"

definition RTP_PAYLOAD_TYPES_name :: "nat \<Rightarrow> RTP_PAYLOAD_TYPES option" where
  "RTP_PAYLOAD_TYPES_name n =
     (if n = 0x52 then Some timingRequest
      else if n = 0x53 then Some timingResponse
      else if n = 0x54 then Some sync
      else if n = 0x55 then Some rangeResend
      else if n = 0x60 then Some audioData
      else None)"

text \<open>
  The values the field \<open>payloadType\<close> of a header takes: a number (what a sender
  passes, a member of the enum), a member name (what the parser returns), or
  \<open>undefined\<close> (what the parser returns for a number outside the enum).
\<close>

datatype payload_type =
  PayloadNumber nat
  | PayloadName RTP_PAYLOAD_TYPES
  | PayloadUndefined

text \<open>
  \<open>Number(header.payloadType)\<close> as an operand of \<open>|\<close>: a member name is not
  a numeric string, so it and \<open>undefined\<close> convert to \<open>NaN\<close>, which \<open>|\<close> takes
  as 0.
\<close>

fun payload_type_bits :: "payload_type \<Rightarrow> nat" where
  "payload_type_bits (PayloadNumber n) = n"
| "payload_type_bits (PayloadName k) = 0"
| "payload_type_bits PayloadUndefined = 0"

record RTP_HEADER =
  extension :: bool
  source :: nat
  payloadType :: payload_type
  marker :: bool
  seqnum :: nat

subsection \<open>Reading and writing bytes\<close>

datatype js_error = RangeError

text \<open>The big-endian reads of a \<open>DataView\<close>; a read past the end throws.\<close>

definition getUint8 :: "byte list \<Rightarrow> nat \<Rightarrow> js_error + byte" where
  "getUint8 b off = (if off + 1 \<le> length b then Inr (b ! off) else Inl RangeError)"

definition getUint16 :: "byte list \<Rightarrow> nat \<Rightarrow> js_error + nat" where
  "getUint16 b off =
     (if off + 2 \<le> length b then Inr (unat (b ! off) * 256 + unat (b ! (off + 1)))
      else Inl RangeError)"

definition getUint32 :: "byte list \<Rightarrow> nat \<Rightarrow> js_error + nat" where
  "getUint32 b off =
     (if off + 4 \<le> length b
      then Inr (unat (b ! off) * 2 ^ 24 + unat (b ! (off + 1)) * 2 ^ 16
                + unat (b ! (off + 2)) * 2 ^ 8 + unat (b ! (off + 3)))
      else Inl RangeError)"

text \<open>
  The writes. \<open>setUint8\<close> keeps the low 8 bits of an integer, \<open>setUint16\<close> the low
  16 and \<open>setUint32\<close> the low 32, after the number was truncated towards zero.
\<close>

definition setUint8 :: "nat \<Rightarrow> byte list" where
  "setUint8 v = [of_nat v]"

definition setUint16 :: "nat \<Rightarrow> byte list" where
  "setUint16 v = [of_nat (v mod 2 ^ 16 div 2 ^ 8), of_nat v]"

definition ToUint32 :: "real \<Rightarrow> nat" where
  "ToUint32 x = nat ((if 0 \<le> x then \<lfloor>x\<rfloor> else \<lceil>x\<rceil>) mod 2 ^ 32)"

definition setUint32 :: "real \<Rightarrow> byte list" where
  "setUint32 x =
     (let v = ToUint32 x
      in [of_nat (v div 2 ^ 24), of_nat (v div 2 ^ 16), of_nat (v div 2 ^ 8), of_nat v])"


subsection \<open>RTP headers\<close>

definition parseRtpHeader :: "byte list \<Rightarrow> js_error + RTP_HEADER" where
  "parseRtpHeader message =
     (case getUint8 message 0 of
        Inl e \<Rightarrow> Inl e
      | Inr a \<Rightarrow>
          (case getUint8 message 1 of
             Inl e \<Rightarrow> Inl e
           | Inr b \<Rightarrow>
               (case getUint16 message 2 of
                  Inl e \<Rightarrow> Inl e
                | Inr n \<Rightarrow>
                    Inr \<lparr>extension = (a AND RTP_HEADER_A_EXTENSION \<noteq> 0),
                         source = unat (a AND RTP_HEADER_A_SOURCE),
                         payloadType =
                           (case RTP_PAYLOAD_TYPES_name (unat (b AND RTP_HEADER_B_PAYLOAD_TYPE)) of
                              None \<Rightarrow> PayloadUndefined
                            | Some k \<Rightarrow> PayloadName k),
                         marker = (b AND RTP_HEADER_B_MARKER \<noteq> 0),
                         seqnum = n\<rparr>)))"

definition getRtpHeader :: "RTP_HEADER \<Rightarrow> byte list" where
  "getRtpHeader header =
     (let a = (if extension header then unat RTP_HEADER_A_EXTENSION else 0) OR source header;
          b = (if marker header then unat RTP_HEADER_B_MARKER else 0)
                OR payload_type_bits (payloadType header)
      in setUint8 a @ setUint8 b @ setUint16 (seqnum header))"

subsection \<open>NTP timestamps\<close>

definition parseNtpTimestamp :: "byte list \<Rightarrow> js_error + real" where
  "parseNtpTimestamp ntpTime =
     (case getUint32 ntpTime 0 of
        Inl e \<Rightarrow> Inl e
      | Inr integer \<Rightarrow>
          (case getUint32 ntpTime 4 of
             Inl e \<Rightarrow> Inl e
           | Inr fraction \<Rightarrow> Inr ((real integer + real fraction / 2 ^ 32) * 1000)))"

definition getNtpTimestamp :: "real \<Rightarrow> byte list" where
  "getNtpTimestamp time =
     (let integer = \<lfloor>time / 1000\<rfloor>;
          fraction = (time / 1000 - of_int integer) * 2 ^ 32
      in setUint32 (of_int integer) @ setUint32 fraction)"

subsection \<open>Packet parsers\<close>

record timingRequestPacket =
  referenceTime :: real
  receivedTime :: real
  sendTime :: real

datatype parsedMessage =
  TimingRequestMessage timingRequestPacket
  | RangeResendMessage nat nat
  | UndefinedMessage

definition parse_timingRequest :: "byte list \<Rightarrow> js_error + timingRequestPacket" where
  "parse_timingRequest message =
     (case parseNtpTimestamp (drop (RTP_HEADER_LENGTH + 4) message) of
        Inl e \<Rightarrow> Inl e
      | Inr t1 \<Rightarrow>
          (case parseNtpTimestamp
                  (drop (RTP_HEADER_LENGTH + 4 + RTP_NTP_TIMESTAMP_LENGTH) message) of
             Inl e \<Rightarrow> Inl e
           | Inr t2 \<Rightarrow>
               (case parseNtpTimestamp
                       (drop (RTP_HEADER_LENGTH + 4 + RTP_NTP_TIMESTAMP_LENGTH
                              + RTP_NTP_TIMESTAMP_LENGTH) message) of
                  Inl e \<Rightarrow> Inl e
                | Inr t3 \<Rightarrow> Inr \<lparr>referenceTime = t1, receivedTime = t2, sendTime = t3\<rparr>)))"

definition parse_rangeResend :: "byte list \<Rightarrow> js_error + parsedMessage" where
  "parse_rangeResend message =
     (case getUint16 message RTP_HEADER_LENGTH of
        Inl e \<Rightarrow> Inl e
      | Inr missedSeq \<Rightarrow>
          (case getUint16 message (RTP_HEADER_LENGTH + 2) of
             Inl e \<Rightarrow> Inl e
           | Inr missedCount \<Rightarrow> Inr (RangeResendMessage missedSeq missedCount)))"

text \<open>
  The table \<open>packetParsers\<close>, indexed by the parsed payload type: it has the two
  keys \<open>timingRequest\<close> and \<open>rangeResend\<close>.
\<close>

fun packetParsers :: "payload_type \<Rightarrow> (byte list \<Rightarrow> js_error + parsedMessage) option" where
  "packetParsers (PayloadName timingRequest) =
     Some (\<lambda>message. map_sum id TimingRequestMessage (parse_timingRequest message))"
| "packetParsers (PayloadName rangeResend) = Some parse_rangeResend"
| "packetParsers _ = None"

subsection \<open>The socket\<close>

text \<open>
  The socket object, with what it emitted to its listeners (the higher layer) and
  what it sent: each datagram with the port and host it went to.
\<close>

datatype socket_event = PayloadTypeEvent payload_type | MessageEvent

record AirplayUdpSocket =
  serverPort :: int
  clientPort :: int
  clientHost :: string
  socketEmitted :: "(socket_event \<times> parsedMessage \<times> RTP_HEADER) list"
  socketSent :: "(byte list \<times> int \<times> string) list"

definition new_AirplayUdpSocket :: "string \<Rightarrow> AirplayUdpSocket" where
  "new_AirplayUdpSocket host =
     \<lparr>serverPort = - 1, clientPort = - 1, clientHost = host, socketEmitted = [], socketSent = []\<rparr>"

text \<open>
  The listener of the socket's \<open>message\<close> event (lines 35 to 40). An exception
  thrown while parsing leaves the listener; nothing in the class catches it.
\<close>

definition on_message :: "AirplayUdpSocket \<Rightarrow> byte list \<Rightarrow> js_error + AirplayUdpSocket" where
  "on_message sock message =
     (case parseRtpHeader message of
        Inl e \<Rightarrow> Inl e
      | Inr header \<Rightarrow>
          (case (case packetParsers (payloadType header) of
                   None \<Rightarrow> Inr UndefinedMessage
                 | Some parser \<Rightarrow> parser message) of
             Inl e \<Rightarrow> Inl e
           | Inr parsed \<Rightarrow>
               Inr (sock\<lparr>socketEmitted := socketEmitted sock @
                      [(PayloadTypeEvent (payloadType header), parsed, header),
                       (MessageEvent, parsed, header)]\<rparr>)))"


subsection \<open>bindToPort\<close>

text \<open>
  What one \<open>socket.bind(port)\<close> leads to: the \<open>listening\<close> event, or the \<open>error\<close>
  event with an error whose \<open>code\<close> may be missing. The operating system is a
  parameter: it says for each port what binding it does. The loop tries each port
  once, so later changes of the system do not matter.
\<close>

datatype bind_result = Listening | BindError "string option"

text \<open>
  The \<open>while (true)\<close> loop of \<open>bindToPort\<close>. It returns \<open>Inr\<close> the socket when
  a bind succeeds and \<open>Inl\<close> the re-thrown error (with the socket as it is then)
  when a bind fails with a code other than \<open>EADDRINUSE\<close>. The loop need not end:
  \<open>None\<close> is the call that never returns.
\<close>

partial_function (option) bindToPort_loop ::
  "(int \<Rightarrow> bind_result) \<Rightarrow> AirplayUdpSocket
     \<Rightarrow> ((string option \<times> AirplayUdpSocket) + AirplayUdpSocket) option" where
  "bindToPort_loop os sock =
     (case os (serverPort sock) of
        Listening \<Rightarrow> Some (Inr sock)
      | BindError code \<Rightarrow>
          if code \<noteq> Some ''EADDRINUSE'' then Some (Inl (code, sock))
          else bindToPort_loop os (sock\<lparr>serverPort := serverPort sock + 1\<rparr>))"

definition bindToPort ::
  "(int \<Rightarrow> bind_result) \<Rightarrow> AirplayUdpSocket \<Rightarrow> int
     \<Rightarrow> ((string option \<times> AirplayUdpSocket) + AirplayUdpSocket) option" where
  "bindToPort os sock basePort = bindToPort_loop os (sock\<lparr>serverPort := basePort\<rparr>)"

text \<open>Example values: the header of a sync packet, a peer's socket, two systems.\<close>

definition example_header :: RTP_HEADER where
  "example_header =
     \<lparr>extension = False, source = 0,
      payloadType = PayloadNumber (RTP_PAYLOAD_TYPES_number sync), marker = True, seqnum = 7\<rparr>"

definition example_socket :: AirplayUdpSocket where
  "example_socket = (new_AirplayUdpSocket ''speaker.local'')\<lparr>clientPort := 6002\<rparr>"

definition two_ports_busy :: "int \<Rightarrow> bind_result" where
  "two_ports_busy p =
     (if p = 6000 \<or> p = 6001 then BindError (Some ''EADDRINUSE'') else Listening)"

definition third_port_denied :: "int \<Rightarrow> bind_result" where
  "third_port_denied p =
     (if p = 6000 \<or> p = 6001 then BindError (Some ''EADDRINUSE'')
      else if p = 6002 then BindError (Some ''EACCES'')
      else Listening)"

section \<open>Rendezvous relay (rendezvous-service/src/routes/wrtc_messenger.ts)\<close>

subsection \<open>Comparing a string with a number\<close>

text \<open>
  \<open>conversationId < 64\<close> compares a string with a number: JavaScript converts the
  string to a number (\<open>StringToNumber\<close> of ECMA-262) and compares numbers; \<open>NaN\<close>
  is less than nothing. The conversion below follows the grammar of
  \<open>StringNumericLiteral\<close> for ASCII: surrounding white space is dropped, the empty
  string is 0, then come the non-decimal literals \<open>0x\<close>, \<open>0o\<close>, \<open>0b\<close>, and
  the signed decimal literals with fraction and exponent, and \<open>Infinity\<close>. The
  value is the exact real the literal denotes, not its nearest double.
\<close>

datatype js_number = NaN | PosInfinity | NegInfinity | Finite real

definition StrWhiteSpaceChar :: "char \<Rightarrow> bool" where
  "StrWhiteSpaceChar c =
     (c \<in> set [CHR 0x09, CHR 0x0A, CHR 0x0B, CHR 0x0C, CHR 0x0D, CHR '' ''])"

definition trim :: "string \<Rightarrow> string" where
  "trim s = rev (dropWhile StrWhiteSpaceChar (rev (dropWhile StrWhiteSpaceChar s)))"

definition digit_value :: "char \<Rightarrow> nat option" where
  "digit_value c =
     (if c \<in> set ''0123456789'' then Some (of_char c - 48)
      else if c \<in> set ''abcdef'' then Some (of_char c - 87)
      else if c \<in> set ''ABCDEF'' then Some (of_char c - 55)
      else None)"

definition is_digit :: "nat \<Rightarrow> char \<Rightarrow> bool" where
  "is_digit base c = (case digit_value c of None \<Rightarrow> False | Some v \<Rightarrow> v < base)"

text \<open>The value of a string of digits in a base; the empty string has value 0.\<close>

definition digits_value :: "nat \<Rightarrow> string \<Rightarrow> nat" where
  "digits_value base ds =
     foldl (\<lambda>acc c. acc * base + (case digit_value c of None \<Rightarrow> 0 | Some v \<Rightarrow> v)) 0 ds"

definition NonDecimalIntegerLiteral :: "string \<Rightarrow> js_number option" where
  "NonDecimalIntegerLiteral s =
     (case s of
        c0 # c1 # ds \<Rightarrow>
          (if c0 = CHR ''0'' \<and> ds \<noteq> [] then
             (if c1 \<in> set ''xX'' \<and> list_all (is_digit 16) ds
                then Some (Finite (real (digits_value 16 ds)))
              else if c1 \<in> set ''oO'' \<and> list_all (is_digit 8) ds
                then Some (Finite (real (digits_value 8 ds)))
              else if c1 \<in> set ''bB'' \<and> list_all (is_digit 2) ds
                then Some (Finite (real (digits_value 2 ds)))
              else None)
           else None)
      | _ \<Rightarrow> None)"

text \<open>
  The exponent part after the digits: nothing, or \<open>e\<close> or \<open>E\<close>, an optional sign
  and at least one digit. \<open>None\<close> when the rest is neither.
\<close>

definition ExponentPart :: "string \<Rightarrow> int option" where
  "ExponentPart s =
     (case s of
        [] \<Rightarrow> Some 0
      | c # r \<Rightarrow>
          if c \<in> set ''eE'' then
            (let (neg, ds) = (case r of
                                 [] \<Rightarrow> (False, [])
                               | c' # r' \<Rightarrow>
                                   if c' = CHR ''-'' then (True, r')
                                   else if c' = CHR ''+'' then (False, r')
                                   else (False, r))
             in if ds \<noteq> [] \<and> list_all (is_digit 10) ds
                then Some (if neg then - int (digits_value 10 ds) else int (digits_value 10 ds))
                else None)
          else None)"

definition power10 :: "int \<Rightarrow> real" where
  "power10 k = (if 0 \<le> k then 10 ^ nat k else 1 / 10 ^ nat (- k))"

definition StrUnsignedDecimalLiteral :: "string \<Rightarrow> js_number" where
  "StrUnsignedDecimalLiteral s =
     (if s = ''Infinity'' then PosInfinity
      else
        let ip = takeWhile (is_digit 10) s;
            r1 = dropWhile (is_digit 10) s;
            (fp, r2) = (case r1 of
                          [] \<Rightarrow> ([], [])
                        | c # r \<Rightarrow>
                            if c = CHR ''.''
                            then (takeWhile (is_digit 10) r, dropWhile (is_digit 10) r)
                            else ([], r1))
        in if ip = [] \<and> fp = [] then NaN
           else (case ExponentPart r2 of
                   None \<Rightarrow> NaN
                 | Some k \<Rightarrow>
                     Finite ((real (digits_value 10 ip)
                              + real (digits_value 10 fp) / 10 ^ length fp) * power10 k)))"

fun negate :: "js_number \<Rightarrow> js_number" where
  "negate NaN = NaN"
| "negate PosInfinity = NegInfinity"
| "negate NegInfinity = PosInfinity"
| "negate (Finite x) = Finite (- x)"

definition StrDecimalLiteral :: "string \<Rightarrow> js_number" where
  "StrDecimalLiteral s =
     (case s of
        [] \<Rightarrow> NaN
      | c # r \<Rightarrow>
          if c = CHR ''+'' then StrUnsignedDecimalLiteral r
          else if c = CHR ''-'' then negate (StrUnsignedDecimalLiteral r)
          else StrUnsignedDecimalLiteral s)"

definition StringToNumber :: "string \<Rightarrow> js_number" where
  "StringToNumber s =
     (let t = trim s
      in if t = [] then Finite 0
         else (case NonDecimalIntegerLiteral t of
                 Some v \<Rightarrow> v
               | None \<Rightarrow> StrDecimalLiteral t))"

fun less_than :: "js_number \<Rightarrow> real \<Rightarrow> bool" where
  "less_than NaN y = False"
| "less_than PosInfinity y = False"
| "less_than NegInfinity y = True"
| "less_than (Finite x) y = (x < y)"

subsection \<open>The store and the handler\<close>

text \<open>
  The Redis lists and their times to live. \<open>LPUSH\<close> puts the value at the head of
  the list; \<open>EXPIRE\<close> sets the time to live of a key that exists.
\<close>

record redis =
  lists :: "string \<Rightarrow> string list"
  ttl :: "string \<Rightarrow> nat option"

definition lpush :: "redis \<Rightarrow> string \<Rightarrow> string \<Rightarrow> redis" where
  "lpush r key v = r\<lparr>lists := (lists r)(key := v # lists r key)\<rparr>"

definition expire :: "redis \<Rightarrow> string \<Rightarrow> nat \<Rightarrow> redis" where
  "expire r key seconds =
     (if lists r key = [] then r else r\<lparr>ttl := (ttl r)(key \<mapsto> seconds)\<rparr>)"

text \<open>What a request body or a route parameter may be.\<close>

datatype js_value = JsString string | JsUndefined | JsObject

record request =
  body :: js_value
  params_id :: js_value

text \<open>How the handler ends: an assertion throws with a status, or the status is set.\<close>

datatype response = Thrown nat string | Status nat

text \<open>
  The handler of \<open>POST /api/conversations/:id/messages\<close> (lines 19 to 33), the four
  assertions in their order. \<open>conversationExpireTime\<close> is the configured value.
\<close>

definition post_messages :: "nat \<Rightarrow> redis \<Rightarrow> request \<Rightarrow> response \<times> redis" where
  "post_messages conversationExpireTime store req =
     (case body req of
        JsString message \<Rightarrow>
          (case params_id req of
             JsString conversationId \<Rightarrow>
               if \<not> length message < 1024
                 then (Thrown 400 ''body should be less than 1024 chars'', store)
               else if \<not> less_than (StringToNumber conversationId) 64
                 then (Thrown 400 ''conversion_id should be less than 64 chars'', store)
               else
                 (Status 204,
                  expire (lpush store (''conversation:'' @ conversationId) message)
                    (''conversation:'' @ conversationId) conversationExpireTime)
           | _ \<Rightarrow> (Thrown 400 ''id sould be a string'', store))
      | _ \<Rightarrow> (Thrown 400 ''body should be a string'', store))"

definition empty_redis :: redis where
  "empty_redis = \<lparr>lists = (\<lambda>_. []), ttl = (\<lambda>_. None)\<rparr>"

section \<open>Local device sink\<close>

text \<open>
  The source a sink is piped from, with the address of its peer, and the sink with
  its shared scalar: the one cell of \<open>delayFromLocalNowBuffer\<close>, \<open>None\<close> when the
  computation had no number to store.
\<close>

record AudioSource =
  peer :: nat
  startedAt :: real
  latency :: real

record LocalDeviceSink =
  pipedSource :: AudioSource
  delayFromLocalNowBuffer :: "real option"

text \<open>
  \<open>setDelayFromLocalNow\<close> (lines 115 to 123). The operands are evaluated from left
  to right, so the clock is read inside \<open>getCurrentTime\<close> first and by \<open>now()\<close>
  last.
\<close>

definition setDelayFromLocalNow :: "world \<Rightarrow> LocalDeviceSink \<Rightarrow> world \<times> LocalDeviceSink" where
  "setDelayFromLocalNow w sink =
     (let (currentTime, w1) = getCurrentTime w (peer (pipedSource sink)) True;
          (n, w2) = now w1
      in (w2, sink\<lparr>delayFromLocalNowBuffer :=
                map_option (\<lambda>t. t - startedAt (pipedSource sink) - latency (pipedSource sink) - n)
                  currentTime\<rparr>))"

text \<open>
  What \<open>_startSink\<close> wires to the resync (lines 69 to 79): the \<open>timedeltaUpdated\<close>
  event of the peer of the piped source, the \<open>update\<close> event of the source, and the
  interval of one second.
\<close>

datatype sink_trigger = PeerTimedeltaUpdated | SourceUpdate | LatencySyncInterval

fun sink_handle :: "world \<Rightarrow> LocalDeviceSink \<Rightarrow> sink_trigger \<Rightarrow> world \<times> LocalDeviceSink" where
  "sink_handle w sink PeerTimedeltaUpdated = setDelayFromLocalNow w sink"
| "sink_handle w sink SourceUpdate = setDelayFromLocalNow w sink"
| "sink_handle w sink LatencySyncInterval = setDelayFromLocalNow w sink"

text \<open>Example values: a sink piped from a source of the peer at address 0.\<close>

definition example_sink :: LocalDeviceSink where
  "example_sink =
     \<lparr>pipedSource = \<lparr>peer = 0, startedAt = 1000, latency = 200\<rparr>,
      delayFromLocalNowBuffer = None\<rparr>"


section \<open>Theorems\<close>

lemma state_update_peer [simp]:
  "heap (update_peer w i f) j = (if j = i then f (heap w i) else heap w j)"
  by (simp add: update_peer_def)

lemma state_setState:
  "state (heap (setState w this s) this) =
     (if state (heap w this) = Deleted then Deleted else s)"
  by (simp add: setState_def)

lemma state_destroy: "state (heap (destroy w this opts) this) = Deleted"
  by (simp add: destroy_def Let_def setState_def unregisterPeer_def managerEmit_def
      sendControllerMessage_def)

lemma state_call_Deleted:
  "state (heap w this) = Deleted \<Longrightarrow> state (heap (call this w c) this) = Deleted"
  by (cases c) (simp_all add: state_setState state_destroy)

lemma state_calls_Deleted:
  "state (heap w this) = Deleted \<Longrightarrow> state (heap (calls this w cs) this) = Deleted"
  unfolding calls_def
  by (induction cs arbitrary: w) (simp_all add: state_call_Deleted)

subsection \<open>Deleted is terminal\<close>

lemma calls_snoc: "calls this w (cs @ [c]) = call this (calls this w cs) c"
  by (simp add: calls_def)

lemma rank_call:
  "c \<noteq> SetState Connecting \<Longrightarrow>
   rank (state (heap w this)) \<le> rank (state (heap (call this w c) this))"
  apply (cases c)
  subgoal for s by (cases s; cases "state (heap w this)") (simp_all add: state_setState)
  subgoal by (simp add: state_destroy) (cases "state (heap w this)"; simp)
  done

lemma state_example_world: "state (heap example_world 0) = Connecting"
  by (simp add: example_world_def new_Peer_def managerEmit_def)

text \<open>
  C3, as stated, fails: \<open>setState\<close> guards only the deleted state, so
  \<open>setState('connecting')\<close> takes a connected peer back to \<open>Connecting\<close>.
\<close>

theorem setState_backward_counterexample:
  "state (heap (calls 0 example_world [SetState Connected]) 0) = Connected \<and>
   state (heap (calls 0 example_world [SetState Connected, SetState Connecting]) 0) = Connecting"
  by (simp add: calls_def state_setState state_example_world)

text \<open>
  C3, amended. For every peer and every sequence of \<open>setState\<close> and \<open>destroy\<close>
  calls: once the state is \<open>Deleted\<close> no later call changes it; and when no call of
  the sequence is \<open>setState('connecting')\<close>, every call leaves the state where it is
  or moves it forward in the order Connecting, Connected, Deleted.
\<close>

theorem deleted_terminal_forward_only:
  "(state (heap w this) = Deleted \<longrightarrow> state (heap (calls this w cs) this) = Deleted) \<and>
   (SetState Connecting \<notin> set cs \<longrightarrow>
      (\<forall>n < length cs.
         rank (state (heap (calls this w (take n cs)) this))
           \<le> rank (state (heap (calls this w (take (Suc n) cs)) this))))"
proof (intro conjI impI allI)
  assume "state (heap w this) = Deleted"
  then show "state (heap (calls this w cs) this) = Deleted"
    by (rule state_calls_Deleted)
next
  fix n
  assume no: "SetState Connecting \<notin> set cs" and n: "n < length cs"
  from n have "take (Suc n) cs = take n cs @ [cs ! n]"
    by (simp add: take_Suc_conv_app_nth)
  moreover from no n have "cs ! n \<noteq> SetState Connecting"
    by (metis nth_mem)
  ultimately show "rank (state (heap (calls this w (take n cs)) this))
      \<le> rank (state (heap (calls this w (take (Suc n) cs)) this))"
    by (simp add: calls_snoc rank_call)
qed

theorem deleted_terminal_forward_only_witness:
  "state (heap (calls 0 example_world [Destroy default_destroy_options]) 0) = Deleted \<and>
   state (heap (calls 0 (calls 0 example_world [Destroy default_destroy_options])
                  [SetState Connected, SetState Connecting]) 0) = Deleted \<and>
   rank (state (heap (calls 0 example_world
                  (take 0 [SetState Connected, Destroy default_destroy_options])) 0))
     \<le> rank (state (heap (calls 0 example_world
                  (take (Suc 0) [SetState Connected, Destroy default_destroy_options])) 0))"
proof -
  let ?d = "calls 0 example_world [Destroy default_destroy_options]"
  let ?cs = "[SetState Connected, Destroy default_destroy_options]"
  have d: "state (heap ?d 0) = Deleted"
    by (simp add: calls_def state_destroy)
  have "state (heap (calls 0 ?d [SetState Connected, SetState Connecting]) 0) = Deleted"
    using deleted_terminal_forward_only [of ?d 0 "[SetState Connected, SetState Connecting]"] d
    by blast
  moreover have "SetState Connecting \<notin> set ?cs"
    by simp
  then have "rank (state (heap (calls 0 example_world (take 0 ?cs)) 0))
      \<le> rank (state (heap (calls 0 example_world (take (Suc 0) ?cs)) 0))"
    using deleted_terminal_forward_only [of example_world 0 ?cs]
    by (metis length_Cons zero_less_Suc)
  ultimately show ?thesis using d by blast
qed

subsection \<open>waitForConnected\<close>

lemma state_waitForConnected_listener:
  "state (heap (waitForConnected_listener w this pid) this) = state (heap w this)"
  by (simp add: waitForConnected_listener_def)

lemma listeners_connected:
  "state (heap w this) = Connected \<Longrightarrow>
   foldl (\<lambda>v pid. waitForConnected_listener v this pid) w ps = w"
  by (induction ps) (simp_all add: waitForConnected_listener_def)

lemma listeners_not_connected_resolved:
  "state (heap w this) \<noteq> Connected \<Longrightarrow>
   resolved (foldl (\<lambda>v pid. waitForConnected_listener v this pid) w ps) = resolved w @ ps"
proof (induction ps arbitrary: w)
  case Nil
  then show ?case by simp
next
  case (Cons p ps)
  have "state (heap (waitForConnected_listener w this p) this) \<noteq> Connected"
    using Cons.prems by (simp add: state_waitForConnected_listener)
  from Cons.IH [OF this] Cons.prems show ?case
    by (simp add: waitForConnected_listener_def)
qed

lemma state_constructor_listener:
  "state (heap (constructor_stateChange_listener w this) this) = state (heap w this)"
  by (simp add: constructor_stateChange_listener_def Let_def managerEmit_def)

lemma resolved_constructor_listener:
  "resolved (constructor_stateChange_listener w this) = resolved w"
  by (simp add: constructor_stateChange_listener_def Let_def managerEmit_def update_peer_def)

lemma connectedWaiters_constructor_listener:
  "connectedWaiters (heap (constructor_stateChange_listener w this) this) = connectedWaiters (heap w this)"
  by (simp add: constructor_stateChange_listener_def Let_def managerEmit_def)

lemma emit_stateChange_connected:
  assumes "state (heap w this) = Connected"
  shows "resolved (emit_stateChange w this) = resolved w"
    and "connectedWaiters (heap (emit_stateChange w this) this) = connectedWaiters (heap w this)"
    and "state (heap (emit_stateChange w this) this) = Connected"
proof -
  let ?w1 = "emit w this StateChange"
  let ?w2 = "if constructorListeners (heap w this)
             then constructor_stateChange_listener ?w1 this else ?w1"
  have s: "state (heap ?w2 this) = Connected"
    using assms by (simp add: state_constructor_listener emit_def)
  have e: "emit_stateChange w this = ?w2"
    unfolding emit_stateChange_def Let_def using listeners_connected [OF s] by simp
  show "resolved (emit_stateChange w this) = resolved w"
    unfolding e by (simp add: resolved_constructor_listener emit_def update_peer_def)
  show "connectedWaiters (heap (emit_stateChange w this) this) = connectedWaiters (heap w this)"
    unfolding e by (simp add: connectedWaiters_constructor_listener emit_def)
  show "state (heap (emit_stateChange w this) this) = Connected"
    unfolding e by (rule s)
qed

lemma emit_stateChange_not_connected:
  assumes "state (heap w this) \<noteq> Connected"
  shows "resolved (emit_stateChange w this) = resolved w @ connectedWaiters (heap w this)"
proof -
  let ?w1 = "emit w this StateChange"
  let ?w2 = "if constructorListeners (heap w this)
             then constructor_stateChange_listener ?w1 this else ?w1"
  have s: "state (heap ?w2 this) \<noteq> Connected"
    using assms by (simp add: state_constructor_listener emit_def)
  have r: "resolved ?w2 = resolved w"
    by (simp add: resolved_constructor_listener emit_def update_peer_def)
  show ?thesis
    unfolding emit_stateChange_def Let_def
    using listeners_not_connected_resolved [OF s] r by simp
qed

lemma run_immediates_single:
  "immediates w = [cb] \<Longrightarrow> run_immediates w = setState_immediate (w\<lparr>immediates := []\<rparr>) cb"
  by (simp add: run_immediates_def)

lemma resolved_setState_immediate:
  "resolved (setState_immediate w (this, s)) = resolved (emit_stateChange w this)"
  by (simp add: setState_immediate_def Let_def managerEmit_def)

lemma heap_setState_immediate:
  "heap (setState_immediate w (this, s)) = heap (emit_stateChange w this)"
  by (simp add: setState_immediate_def Let_def managerEmit_def)

lemma waiting_then_connected:
  assumes "state (heap w this) = Connecting" and "immediates w = []"
  shows "resolved (run_immediates (setState (waitForConnected w this pid) this Connected)) = resolved w"
    and "connectedWaiters (heap (run_immediates (setState (waitForConnected w this pid) this Connected)) this)
           = connectedWaiters (heap w this) @ [pid]"
proof -
  let ?w1 = "waitForConnected w this pid"
  let ?w2 = "setState ?w1 this Connected"
  have i: "immediates ?w2 = [(this, Connected)]"
    using assms by (simp add: waitForConnected_def setState_def update_peer_def)
  let ?w3 = "?w2\<lparr>immediates := []\<rparr>"
  have s: "state (heap ?w3 this) = Connected"
    using assms by (simp add: waitForConnected_def setState_def)
  have r: "resolved ?w3 = resolved w"
    using assms by (simp add: waitForConnected_def setState_def update_peer_def)
  have c: "connectedWaiters (heap ?w3 this) = connectedWaiters (heap w this) @ [pid]"
    using assms by (simp add: waitForConnected_def setState_def)
  show "resolved (run_immediates ?w2) = resolved w"
    by (simp only: run_immediates_single [OF i] resolved_setState_immediate
        emit_stateChange_connected(1) [OF s] r)
  show "connectedWaiters (heap (run_immediates ?w2) this) = connectedWaiters (heap w this) @ [pid]"
    by (simp only: run_immediates_single [OF i] heap_setState_immediate
        emit_stateChange_connected(2) [OF s] c)
qed

lemma waiting_then_destroyed:
  assumes "state (heap w this) = Connecting" and "immediates w = []"
  shows "resolved (run_immediates (destroy (waitForConnected w this pid) this opts)) = resolved w"
    and "connectedWaiters (heap (run_immediates (destroy (waitForConnected w this pid) this opts)) this) = []"
    and "state (heap (run_immediates (destroy (waitForConnected w this pid) this opts)) this) = Deleted"
proof -
  let ?w1 = "waitForConnected w this pid"
  let ?w2 = "destroy ?w1 this opts"
  have i: "immediates ?w2 = [(this, Deleted)]"
    using assms by (simp add: waitForConnected_def destroy_def Let_def setState_def
        update_peer_def unregisterPeer_def managerEmit_def sendControllerMessage_def)
  let ?w3 = "?w2\<lparr>immediates := []\<rparr>"
  have s: "state (heap ?w3 this) = Deleted"
    by (simp add: state_destroy)
  have r: "resolved ?w2 = resolved w"
    using assms by (simp add: waitForConnected_def destroy_def Let_def setState_def
        update_peer_def unregisterPeer_def managerEmit_def sendControllerMessage_def)
  have c: "connectedWaiters (heap ?w2 this) = []"
    using assms by (simp add: waitForConnected_def destroy_def Let_def setState_def
        unregisterPeer_def managerEmit_def sendControllerMessage_def)
  have l: "\<not> constructorListeners (heap ?w2 this)"
    using assms by (simp add: waitForConnected_def destroy_def Let_def setState_def
        unregisterPeer_def managerEmit_def sendControllerMessage_def)
  have e: "emit_stateChange ?w3 this = emit ?w3 this StateChange"
    using c l by (simp add: emit_stateChange_def Let_def)
  show "resolved (run_immediates ?w2) = resolved w"
    by (simp add: run_immediates_single [OF i] resolved_setState_immediate e r emit_def update_peer_def)
  show "connectedWaiters (heap (run_immediates ?w2) this) = []"
    by (simp add: run_immediates_single [OF i] heap_setState_immediate e c emit_def)
  show "state (heap (run_immediates ?w2) this) = Deleted"
    by (simp add: run_immediates_single [OF i] heap_setState_immediate e state_destroy emit_def)
qed

lemma waiting_then_setState_deleted:
  assumes "state (heap w this) = Connecting" and "immediates w = []"
  shows "resolved (run_immediates (setState (waitForConnected w this pid) this Deleted))
           = resolved w @ connectedWaiters (heap w this) @ [pid]"
proof -
  let ?w1 = "waitForConnected w this pid"
  let ?w2 = "setState ?w1 this Deleted"
  have i: "immediates ?w2 = [(this, Deleted)]"
    using assms by (simp add: waitForConnected_def setState_def update_peer_def)
  let ?w3 = "?w2\<lparr>immediates := []\<rparr>"
  have s: "state (heap ?w3 this) \<noteq> Connected"
    using assms by (simp add: waitForConnected_def setState_def)
  have r: "resolved ?w3 = resolved w"
    using assms by (simp add: waitForConnected_def setState_def update_peer_def)
  have c: "connectedWaiters (heap ?w3 this) = connectedWaiters (heap w this) @ [pid]"
    using assms by (simp add: waitForConnected_def setState_def)
  show ?thesis
    by (simp only: run_immediates_single [OF i] resolved_setState_immediate
        emit_stateChange_not_connected [OF s] r c)
qed
text \<open>
  A promise that is neither resolved nor waited for stays so, whatever happens next,
  as long as \<open>waitForConnected\<close> is not called for it again.
\<close>

lemma unresolved_listener:
  assumes "pid \<notin> set (resolved w)" and "\<forall>i. pid \<notin> set (connectedWaiters (heap w i))"
    and "q \<noteq> pid"
  shows "pid \<notin> set (resolved (waitForConnected_listener w this q)) \<and>
         (\<forall>i. pid \<notin> set (connectedWaiters (heap (waitForConnected_listener w this q) i)))"
  using assms
  by (auto simp add: waitForConnected_listener_def dest: notin_set_remove1)

lemma unresolved_listeners:
  assumes "pid \<notin> set (resolved w)" and "\<forall>i. pid \<notin> set (connectedWaiters (heap w i))"
    and "pid \<notin> set ps"
  shows "pid \<notin> set (resolved (foldl (\<lambda>v q. waitForConnected_listener v this q) w ps)) \<and>
         (\<forall>i. pid \<notin> set (connectedWaiters
                (heap (foldl (\<lambda>v q. waitForConnected_listener v this q) w ps) i)))"
  using assms
proof (induction ps arbitrary: w)
  case Nil
  then show ?case by simp
next
  case (Cons q ps)
  from Cons.prems have "q \<noteq> pid" by auto
  from unresolved_listener [OF Cons.prems(1,2) this, of this] Cons.prems(3)
  show ?case by (simp add: Cons.IH)
qed

lemma unresolved_constructor_listener:
  "resolved (constructor_stateChange_listener w this) = resolved w"
  "connectedWaiters (heap (constructor_stateChange_listener w this) i)
     = connectedWaiters (heap w i)"
  by (simp_all add: constructor_stateChange_listener_def Let_def managerEmit_def update_peer_def)

lemma unresolved_emit_stateChange:
  assumes "pid \<notin> set (resolved w)" and "\<forall>i. pid \<notin> set (connectedWaiters (heap w i))"
  shows "pid \<notin> set (resolved (emit_stateChange w this)) \<and>
         (\<forall>i. pid \<notin> set (connectedWaiters (heap (emit_stateChange w this) i)))"
  unfolding emit_stateChange_def Let_def
  using assms
  by (intro unresolved_listeners)
     (simp_all add: unresolved_constructor_listener emit_def update_peer_def)

lemma unresolved_setState_immediate:
  assumes "pid \<notin> set (resolved w)" and "\<forall>i. pid \<notin> set (connectedWaiters (heap w i))"
  shows "pid \<notin> set (resolved (setState_immediate w cb)) \<and>
         (\<forall>i. pid \<notin> set (connectedWaiters (heap (setState_immediate w cb) i)))"
  using unresolved_emit_stateChange [OF assms, of "fst cb"]
  by (simp add: setState_immediate_def Let_def managerEmit_def)

lemma unresolved_immediates:
  assumes "pid \<notin> set (resolved w)" and "\<forall>i. pid \<notin> set (connectedWaiters (heap w i))"
  shows "pid \<notin> set (resolved (foldl setState_immediate w cbs)) \<and>
         (\<forall>i. pid \<notin> set (connectedWaiters (heap (foldl setState_immediate w cbs) i)))"
  using assms
proof (induction cbs arbitrary: w)
  case Nil
  then show ?case by simp
next
  case (Cons cb cbs)
  from unresolved_setState_immediate [OF Cons.prems, of cb] show ?case
    by (simp add: Cons.IH)
qed

lemma unresolved_setState:
  "resolved (setState w this s) = resolved w"
  "connectedWaiters (heap (setState w this s) i) = connectedWaiters (heap w i)"
  by (simp_all add: setState_def update_peer_def)

lemma unresolved_destroy:
  "resolved (destroy w this opts) = resolved w"
  "pid \<notin> set (connectedWaiters (heap w i)) \<Longrightarrow>
   pid \<notin> set (connectedWaiters (heap (destroy w this opts) i))"
  by (simp_all add: destroy_def Let_def setState_def update_peer_def unregisterPeer_def
      managerEmit_def sendControllerMessage_def)

lemma unresolved_peerInfo_adopt:
  "resolved (peerInfo_adopt w this d ss) = resolved w"
  "connectedWaiters (heap (peerInfo_adopt w this d ss) i) = connectedWaiters (heap w i)"
  by (simp_all add: peerInfo_adopt_def Let_def setState_def update_peer_def split: option.split)

lemma unresolved_on_timekeepRequest:
  "resolved (on_timekeepRequest w this sentAt) = resolved w"
  "connectedWaiters (heap (on_timekeepRequest w this sentAt) i) = connectedWaiters (heap w i)"
  by (simp_all add: on_timekeepRequest_def now_def sendControllerMessage_def update_peer_def)

lemma unresolved_on_timekeepResponse:
  "resolved (on_timekeepResponse w this sentAt respondedAt) = resolved w"
  "connectedWaiters (heap (on_timekeepResponse w this sentAt respondedAt) i)
     = connectedWaiters (heap w i)"
  by (simp_all add: on_timekeepResponse_def now_def Let_def emit_def update_peer_def
      split: option.split)

lemma unresolved_on_peerInfo:
  assumes "pid \<notin> set (resolved w)" and "\<forall>i. pid \<notin> set (connectedWaiters (heap w i))"
  shows "pid \<notin> set (resolved (on_peerInfo w this d ss)) \<and>
         (\<forall>i. pid \<notin> set (connectedWaiters (heap (on_peerInfo w this d ss) i)))"
  using assms
  by (simp add: on_peerInfo_def unresolved_peerInfo_adopt unresolved_destroy
      split: option.split)

lemma unresolved_onReceivedMessage:
  assumes "pid \<notin> set (resolved w)" and "\<forall>i. pid \<notin> set (connectedWaiters (heap w i))"
  shows "pid \<notin> set (resolved (onReceivedMessage w this m)) \<and>
         (\<forall>i. pid \<notin> set (connectedWaiters (heap (onReceivedMessage w this m) i)))"
proof -
  define w3 where "w3 = emit (emit (update_peer w this
      (\<lambda>p. p\<lparr>missingPeerResponseTimeout := \<not> isLocal p\<rparr>)) this (ControllerMessageAll m))
      this (ControllerMessageOfType m)"
  have a: "pid \<notin> set (resolved w3)" "\<forall>i. pid \<notin> set (connectedWaiters (heap w3 i))"
    using assms by (simp_all add: w3_def emit_def update_peer_def)
  have "onReceivedMessage w this m =
      managerEmit
        (if constructorListeners (heap w3 this) then
           (case m of
              TimekeepRequest sentAt \<Rightarrow> on_timekeepRequest w3 this sentAt
            | TimekeepResponse sentAt respondedAt \<Rightarrow>
                on_timekeepResponse w3 this sentAt respondedAt
            | PeerInfo d sharedState \<Rightarrow> on_peerInfo w3 this d sharedState
            | Disconnect \<Rightarrow> w3)
         else w3)
        (ManagerControllerMessage this m)"
    by (simp only: onReceivedMessage_def Let_def w3_def)
  then show ?thesis
    using a unresolved_on_peerInfo [OF a]
    by (cases m)
       (simp_all add: managerEmit_def unresolved_on_timekeepRequest
         unresolved_on_timekeepResponse)
qed

lemma unresolved_perform:
  assumes "pid \<notin> set (resolved w)" and "\<forall>i. pid \<notin> set (connectedWaiters (heap w i))"
    and "snd a \<noteq> WaitForConnected pid"
  shows "pid \<notin> set (resolved (perform w a)) \<and>
         (\<forall>i. pid \<notin> set (connectedWaiters (heap (perform w a) i)))"
proof (cases a)
  case (Pair this act)
  show ?thesis
  proof (cases act)
    case (Receive m)
    with Pair unresolved_onReceivedMessage [OF assms(1,2)] show ?thesis by simp
  next
    case (Call c)
    with Pair assms show ?thesis
      by (cases c) (simp_all add: unresolved_setState unresolved_destroy)
  next
    case (WaitForConnected q)
    with Pair assms show ?thesis
      by (auto simp add: waitForConnected_def update_peer_def)
  next
    case NoResponseTimeout
    with Pair assms show ?thesis
      by (simp add: handleNoResponseTimeout_def unresolved_destroy)
  next
    case Immediates
    with Pair unresolved_immediates [OF _ _, of pid "w\<lparr>immediates := []\<rparr>" "immediates w"] assms
    show ?thesis by (simp add: run_immediates_def)
  qed
qed

lemma unresolved_run:
  assumes "pid \<notin> set (resolved w)" and "\<forall>i. pid \<notin> set (connectedWaiters (heap w i))"
    and "\<forall>a \<in> set as. snd a \<noteq> WaitForConnected pid"
  shows "pid \<notin> set (resolved (run w as)) \<and>
         (\<forall>i. pid \<notin> set (connectedWaiters (heap (run w as) i)))"
  using assms unfolding run_def
proof (induction as arbitrary: w)
  case Nil
  then show ?case by simp
next
  case (Cons a as)
  from Cons.prems have "snd a \<noteq> WaitForConnected pid" by simp
  from unresolved_perform [OF Cons.prems(1,2) this] Cons.prems(3) show ?case
    by (simp add: Cons.IH)
qed

lemma destroyed_waiter_never_resolved:
  assumes "state (heap w this) = Connecting"
    and "pid \<notin> set (resolved w)" and "\<forall>i. pid \<notin> set (connectedWaiters (heap w i))"
    and "\<forall>a \<in> set as. snd a \<noteq> WaitForConnected pid"
  shows "pid \<notin> set (resolved (run (destroy (waitForConnected w this pid) this opts) as))"
proof -
  let ?w = "destroy (waitForConnected w this pid) this opts"
  have "pid \<notin> set (resolved ?w)"
    using assms(1,2)
    by (simp add: unresolved_destroy(1) waitForConnected_def update_peer_def)
  moreover have "\<forall>i. pid \<notin> set (connectedWaiters (heap ?w i))"
    using assms(1,3)
    by (simp add: destroy_def Let_def setState_def unregisterPeer_def
        managerEmit_def sendControllerMessage_def waitForConnected_def)
  ultimately show ?thesis
    using unresolved_run [OF _ _ assms(4)] by blast
qed

lemma example_world_facts:
  "state (heap example_world 0) = Connecting" "immediates example_world = []"
  "resolved example_world = []" "connectedWaiters (heap example_world 0) = []"
  by (simp_all add: example_world_def new_Peer_def managerEmit_def empty_world_def)

text \<open>
  C10, as stated, fails in its last part: a connecting peer that is destroyed reaches
  \<open>Deleted\<close>, but \<open>destroy\<close> removes all listeners before the deferred
  \<open>stateChange\<close> is emitted, so the promise of \<open>waitForConnected\<close> is not resolved
  and no listener is left that could resolve it.
\<close>

theorem waitForConnected_destroy_counterexample:
  "state (heap (run_immediates
      (destroy (waitForConnected example_world 0 7) 0 default_destroy_options)) 0) = Deleted \<and>
   7 \<notin> set (resolved (run_immediates
      (destroy (waitForConnected example_world 0 7) 0 default_destroy_options))) \<and>
   connectedWaiters (heap (run_immediates
      (destroy (waitForConnected example_world 0 7) 0 default_destroy_options)) 0) = []"
  by (simp add: waiting_then_destroyed example_world_facts)

text \<open>
  C10, amended. \<open>waitForConnected\<close> resolves at once on a connected peer; otherwise
  it attaches a listener to \<open>stateChange\<close> that returns without resolving while the
  peer is connected, and detaches itself and resolves when the event is delivered
  while the peer is not connected. So for a connecting peer with no notification
  pending: the transition to \<open>Connected\<close> does not resolve the promise and leaves the
  listener attached; a later \<open>stateChange\<close> delivered in state \<open>Deleted\<close> (after
  \<open>setState('deleted')\<close>) resolves it; and a transition to \<open>Deleted\<close> made by
  \<open>destroy\<close> detaches the listener without resolving the promise, which nothing
  that happens later resolves.
\<close>

theorem waitForConnected_resolution:
  "(state (heap w this) = Connected \<longrightarrow>
      waitForConnected w this pid = w\<lparr>resolved := resolved w @ [pid]\<rparr>) \<and>
   (state (heap w this) \<noteq> Connected \<longrightarrow>
      resolved (waitForConnected w this pid) = resolved w \<and>
      connectedWaiters (heap (waitForConnected w this pid) this)
        = connectedWaiters (heap w this) @ [pid]) \<and>
   (state (heap w this) = Connected \<longrightarrow> waitForConnected_listener w this pid = w) \<and>
   (state (heap w this) \<noteq> Connected \<longrightarrow>
      resolved (waitForConnected_listener w this pid) = resolved w @ [pid] \<and>
      connectedWaiters (heap (waitForConnected_listener w this pid) this)
        = remove1 pid (connectedWaiters (heap w this))) \<and>
   (state (heap w this) = Connecting \<and> immediates w = [] \<longrightarrow>
      resolved (run_immediates (setState (waitForConnected w this pid) this Connected))
        = resolved w \<and>
      connectedWaiters
          (heap (run_immediates (setState (waitForConnected w this pid) this Connected)) this)
        = connectedWaiters (heap w this) @ [pid] \<and>
      resolved (run_immediates (setState (waitForConnected w this pid) this Deleted))
        = resolved w @ connectedWaiters (heap w this) @ [pid] \<and>
      state (heap (run_immediates (destroy (waitForConnected w this pid) this opts)) this)
        = Deleted \<and>
      resolved (run_immediates (destroy (waitForConnected w this pid) this opts))
        = resolved w \<and>
      connectedWaiters
          (heap (run_immediates (destroy (waitForConnected w this pid) this opts)) this)
        = []) \<and>
   (state (heap w this) = Connecting \<and> pid \<notin> set (resolved w) \<and>
    (\<forall>i. pid \<notin> set (connectedWaiters (heap w i))) \<and>
    (\<forall>a \<in> set as. snd a \<noteq> WaitForConnected pid) \<longrightarrow>
      pid \<notin> set (resolved (run (destroy (waitForConnected w this pid) this opts) as)))"
proof (intro conjI impI)
  assume "state (heap w this) = Connected"
  then show "waitForConnected w this pid = w\<lparr>resolved := resolved w @ [pid]\<rparr>"
    by (simp add: waitForConnected_def)
next
  assume "state (heap w this) \<noteq> Connected"
  then show "resolved (waitForConnected w this pid) = resolved w"
    by (simp add: waitForConnected_def update_peer_def)
next
  assume "state (heap w this) \<noteq> Connected"
  then show "connectedWaiters (heap (waitForConnected w this pid) this)
      = connectedWaiters (heap w this) @ [pid]"
    by (simp add: waitForConnected_def)
next
  assume "state (heap w this) = Connected"
  then show "waitForConnected_listener w this pid = w"
    by (simp add: waitForConnected_listener_def)
next
  assume "state (heap w this) \<noteq> Connected"
  then show "resolved (waitForConnected_listener w this pid) = resolved w @ [pid]"
    by (simp add: waitForConnected_listener_def)
next
  assume "state (heap w this) \<noteq> Connected"
  then show "connectedWaiters (heap (waitForConnected_listener w this pid) this)
      = remove1 pid (connectedWaiters (heap w this))"
    by (simp add: waitForConnected_listener_def)
qed (simp_all add: waiting_then_connected waiting_then_destroyed waiting_then_setState_deleted
    destroyed_waiter_never_resolved)

theorem waitForConnected_resolution_witness:
  "state (heap example_world 0) = Connecting \<and> immediates example_world = [] \<and>
   resolved (waitForConnected example_world 0 7) = [] \<and>
   connectedWaiters (heap (waitForConnected example_world 0 7) 0) = [7] \<and>
   resolved (waitForConnected_listener example_world 0 7) = [7] \<and>
   resolved (run_immediates (setState (waitForConnected example_world 0 7) 0 Connected)) = [] \<and>
   resolved (run_immediates (setState (waitForConnected example_world 0 7) 0 Deleted)) = [7] \<and>
   resolved (run_immediates
      (destroy (waitForConnected example_world 0 7) 0 default_destroy_options)) = [] \<and>
   state (heap (setState example_world 0 Connected) 0) = Connected \<and>
   waitForConnected (setState example_world 0 Connected) 0 7
     = (setState example_world 0 Connected)
         \<lparr>resolved := resolved (setState example_world 0 Connected) @ [7]\<rparr> \<and>
   waitForConnected_listener (setState example_world 0 Connected) 0 7
     = setState example_world 0 Connected \<and>
   7 \<notin> set (resolved (run
      (destroy (waitForConnected example_world 0 7) 0 default_destroy_options)
      [(0, Immediates), (0, Call (SetState Connected)), (0, Immediates)]))"
proof -
  have c: "state (heap (setState example_world 0 Connected) 0) = Connected"
    by (simp add: state_setState example_world_facts)
  have f: "\<forall>i. 7 \<notin> set (connectedWaiters (heap example_world i))"
    by (simp add: example_world_def new_Peer_def managerEmit_def empty_world_def
        unallocated_def)
  have a: "\<forall>a \<in> set [(0 :: nat, Immediates), (0, Call (SetState Connected)), (0, Immediates)].
      snd a \<noteq> WaitForConnected 7"
    by simp
  show ?thesis
    using waitForConnected_resolution [of example_world 0 7 default_destroy_options
        "[(0, Immediates), (0, Call (SetState Connected)), (0, Immediates)]"]
      waitForConnected_resolution [of "setState example_world 0 Connected" 0 7
        default_destroy_options "[]"] c f a
    by (simp add: example_world_facts)
qed

subsection \<open>The committed time delta\<close>

lemma ring_ok_new: "ring_ok (new_BasicNumericStatsTracker TIME_DELTAS_TO_KEEP)"
  by (simp add: ring_ok_def new_BasicNumericStatsTracker_def)

lemma ring_ok_push: "ring_ok t \<Longrightarrow> ring_ok (push x t)"
  by (auto simp add: ring_ok_def push_def Let_def)

lemma ring_ok_flush: "ring_ok t \<Longrightarrow> ring_ok (flush t)"
  by (simp add: ring_ok_def flush_def)

lemma timedeltas_setState [simp]:
  "timedeltas (heap (setState w i s) j) = timedeltas (heap w j)"
  by (simp add: setState_def)

lemma timedeltas_destroy [simp]:
  "timedeltas (heap (destroy w i opts) j) = timedeltas (heap w j)"
  by (simp add: destroy_def Let_def unregisterPeer_def managerEmit_def
      sendControllerMessage_def)

lemma timedeltas_on_timekeepRequest [simp]:
  "timedeltas (heap (on_timekeepRequest w i sentAt) j) = timedeltas (heap w j)"
  by (simp add: on_timekeepRequest_def now_def sendControllerMessage_def)

lemma timedeltas_peerInfo_adopt [simp]:
  "timedeltas (heap (peerInfo_adopt w i d ss) j) = timedeltas (heap w j)"
  by (simp add: peerInfo_adopt_def Let_def split: option.split)

lemma timedeltas_on_peerInfo [simp]:
  "timedeltas (heap (on_peerInfo w i d ss) j) = timedeltas (heap w j)"
  by (simp add: on_peerInfo_def split: option.split)

lemma timedeltas_waitForConnected [simp]:
  "timedeltas (heap (waitForConnected w i pid) j) = timedeltas (heap w j)"
  by (simp add: waitForConnected_def)

lemma timedeltas_waitForConnected_listener [simp]:
  "timedeltas (heap (waitForConnected_listener w i pid) j) = timedeltas (heap w j)"
  by (simp add: waitForConnected_listener_def)

lemma timedeltas_listeners [simp]:
  "timedeltas (heap (foldl (\<lambda>v pid. waitForConnected_listener v i pid) w ps) j)
     = timedeltas (heap w j)"
  by (induction ps arbitrary: w) simp_all

lemma ring_ok_constructor_listener:
  "ring_ok (timedeltas (heap w j)) \<Longrightarrow>
   ring_ok (timedeltas (heap (constructor_stateChange_listener w i) j))"
  by (auto simp add: constructor_stateChange_listener_def Let_def managerEmit_def ring_ok_flush)

lemma ring_ok_emit_stateChange:
  "ring_ok (timedeltas (heap w j)) \<Longrightarrow> ring_ok (timedeltas (heap (emit_stateChange w i) j))"
  by (auto simp add: emit_stateChange_def Let_def emit_def intro: ring_ok_constructor_listener)

lemma ring_ok_setState_immediate:
  "ring_ok (timedeltas (heap w j)) \<Longrightarrow> ring_ok (timedeltas (heap (setState_immediate w cb) j))"
  by (simp add: setState_immediate_def Let_def managerEmit_def ring_ok_emit_stateChange)

lemma ring_ok_immediates:
  "ring_ok (timedeltas (heap w j)) \<Longrightarrow>
   ring_ok (timedeltas (heap (foldl setState_immediate w cbs) j))"
  by (induction cbs arbitrary: w) (simp_all add: ring_ok_setState_immediate)

lemma ring_ok_run_immediates:
  "ring_ok (timedeltas (heap w j)) \<Longrightarrow> ring_ok (timedeltas (heap (run_immediates w) j))"
  unfolding run_immediates_def by (rule ring_ok_immediates) simp

lemma ring_ok_on_timekeepResponse:
  "ring_ok (timedeltas (heap w j)) \<Longrightarrow>
   ring_ok (timedeltas (heap (on_timekeepResponse w i sentAt respondedAt) j))"
  by (auto simp add: on_timekeepResponse_def Let_def now_def emit_def ring_ok_push
      split: option.split)

lemma ring_ok_perform:
  "ring_ok (timedeltas (heap w j)) \<Longrightarrow> ring_ok (timedeltas (heap (perform w a) j))"
proof (cases a)
  case (Pair i act)
  assume ok: "ring_ok (timedeltas (heap w j))"
  show ?thesis
  proof (cases act)
    case (Receive m)
    have "ring_ok (timedeltas (heap (emit (emit (update_peer w i
        (\<lambda>p. p\<lparr>missingPeerResponseTimeout := \<not> isLocal p\<rparr>)) i (ControllerMessageAll m))
        i (ControllerMessageOfType m)) j))"
      using ok by (auto simp add: emit_def)
    with Pair Receive show ?thesis
      by (cases m)
         (simp_all add: onReceivedMessage_def Let_def managerEmit_def
           ring_ok_on_timekeepResponse)
  next
    case (Call c)
    with Pair ok show ?thesis by (cases c) simp_all
  next
    case (WaitForConnected pid)
    with Pair ok show ?thesis by simp
  next
    case NoResponseTimeout
    with Pair ok show ?thesis by (simp add: handleNoResponseTimeout_def)
  next
    case Immediates
    with Pair ok show ?thesis by (simp add: ring_ok_run_immediates)
  qed
qed

lemma ring_ok_run:
  "ring_ok (timedeltas (heap w j)) \<Longrightarrow> ring_ok (timedeltas (heap (run w as) j))"
  unfolding run_def by (induction as arbitrary: w) (simp_all add: ring_ok_perform)

lemma ring_ok_new_Peer: "ring_ok (timedeltas (heap (new_Peer w this d) this))"
  by (simp add: new_Peer_def managerEmit_def ring_ok_new)

lemma handler_ring:
  "timedeltas (heap (on_timekeepResponse w this sentAt respondedAt) this)
     = push (respondedAt - (sentAt + (timeSource w (nowCalls w) - sentAt) / 2))
         (timedeltas (heap w this))"
  by (simp add: on_timekeepResponse_def Let_def now_def emit_def split: option.split)

lemma handler_timeDelta:
  "timeDelta (heap (on_timekeepResponse w this sentAt respondedAt) this)
     = (let t = push (respondedAt - (sentAt + (timeSource w (nowCalls w) - sentAt) / 2))
                  (timedeltas (heap w this))
        in if full TIMESYNC_INIT_REQUEST_COUNT t then
             (case median t of None \<Rightarrow> timeDelta (heap w this)
              | Some m \<Rightarrow> if \<bar>m - timeDelta (heap w this)\<bar> > MS_DIFF_TO_UPDATE_TIME_DELTA
                          then m else timeDelta (heap w this))
           else timeDelta (heap w this))"
  by (simp add: on_timekeepResponse_def Let_def now_def emit_def split: option.split)

lemma handler_emitted:
  "emitted (heap (on_timekeepResponse w this sentAt respondedAt) this)
     = (let t = push (respondedAt - (sentAt + (timeSource w (nowCalls w) - sentAt) / 2))
                  (timedeltas (heap w this))
        in emitted (heap w this) @
           (if full TIMESYNC_INIT_REQUEST_COUNT t \<and>
               (case median t of None \<Rightarrow> False
                | Some m \<Rightarrow> \<bar>m - timeDelta (heap w this)\<bar> > MS_DIFF_TO_UPDATE_TIME_DELTA)
            then [TimedeltaUpdated] else []) @ [TimesyncStateUpdated])"
  by (simp add: on_timekeepResponse_def Let_def now_def emit_def split: option.split)

text \<open>
  C1. Take any peer built by the constructor, after any history of received messages,
  \<open>setState\<close> and \<open>destroy\<close> calls, \<open>waitForConnected\<close> calls, no-response
  timeouts and event-loop turns, on this peer or on others. When it then handles a
  \<open>timekeepResponse\<close>: its ring holds at most 100 samples before and after; the committed \<open>timeDelta\<close>
  changes exactly when the assignment is executed, which needs at least 10 samples in
  the ring and a median more than 5 ms away from the committed value; after the
  assignment the committed value is the median of the ring; and \<open>timedeltaUpdated\<close>
  is emitted exactly then, before the \<open>timesyncStateUpdated\<close> that is always emitted.
\<close>

theorem timeDelta_reassignment:
  "(let w = run (new_Peer w0 this d) as;
        w' = on_timekeepResponse w this sentAt respondedAt
    in length (buffer (timedeltas (heap w this))) \<le> 100 \<and>
       length (buffer (timedeltas (heap w' this))) \<le> 100 \<and>
       (timeDelta (heap w' this) \<noteq> timeDelta (heap w this) \<longleftrightarrow> reassigned w w' this) \<and>
       (reassigned w w' this \<longrightarrow>
          10 \<le> length (buffer (timedeltas (heap w' this))) \<and>
          median (timedeltas (heap w' this)) = Some (timeDelta (heap w' this)) \<and>
          \<bar>timeDelta (heap w' this) - timeDelta (heap w this)\<bar> > 5) \<and>
       emitted (heap w' this)
         = emitted (heap w this) @ (if reassigned w w' this then [TimedeltaUpdated] else [])
             @ [TimesyncStateUpdated])"
proof -
  define w where "w = run (new_Peer w0 this d) as"
  define w' where "w' = on_timekeepResponse w this sentAt respondedAt"
  have ok: "ring_ok (timedeltas (heap w this))"
    unfolding w_def by (rule ring_ok_run) (rule ring_ok_new_Peer)
  then have ok': "ring_ok (timedeltas (heap w' this))"
    unfolding w'_def by (rule ring_ok_on_timekeepResponse)
  have b: "length (buffer (timedeltas (heap w this))) \<le> 100"
    "length (buffer (timedeltas (heap w' this))) \<le> 100"
    using ok ok' by (simp_all add: ring_ok_def TIME_DELTAS_TO_KEEP_def)
  have r: "reassigned w w' this \<longleftrightarrow> timeDelta (heap w' this) \<noteq> timeDelta (heap w this)"
    unfolding reassigned_def w'_def handler_timeDelta handler_ring
    by (auto simp add: Let_def MS_DIFF_TO_UPDATE_TIME_DELTA_def split: option.split)
  have m: "reassigned w w' this \<Longrightarrow>
      10 \<le> length (buffer (timedeltas (heap w' this))) \<and>
      median (timedeltas (heap w' this)) = Some (timeDelta (heap w' this)) \<and>
      \<bar>timeDelta (heap w' this) - timeDelta (heap w this)\<bar> > 5"
    unfolding reassigned_def w'_def handler_timeDelta handler_ring
    by (auto simp add: Let_def MS_DIFF_TO_UPDATE_TIME_DELTA_def full_def
        TIMESYNC_INIT_REQUEST_COUNT_def split: option.splits)
  have e: "emitted (heap w' this)
      = emitted (heap w this) @ (if reassigned w w' this then [TimedeltaUpdated] else [])
          @ [TimesyncStateUpdated]"
    unfolding reassigned_def w'_def handler_emitted handler_ring
    by (simp add: Let_def)
  show ?thesis
    unfolding Let_def w_def [symmetric] w'_def [symmetric]
    using b r m e by blast
qed

lemma run_snoc: "run w (as @ [a]) = perform (run w as) a"
  by (simp add: run_def)

lemma replicate_Suc_snoc: "replicate (Suc k) a = replicate k a @ [a]"
  by (simp add: replicate_append_same)

lemma example_probe_step:
  assumes "constructorListeners (heap w 0)"
    and "length (buffer (timedeltas (heap w 0))) < 9"
    and "maxEntries (timedeltas (heap w 0)) = 100"
  shows "heap (onReceivedMessage w 0 (TimekeepResponse 0 100)) 0
     = (heap w 0)\<lparr>timedeltas := (timedeltas (heap w 0))
           \<lparr>buffer := buffer (timedeltas (heap w 0)) @ [100 - timeSource w (nowCalls w) / 2]\<rparr>,
         emitted := emitted (heap w 0) @
           [ControllerMessageAll (TimekeepResponse 0 100),
            ControllerMessageOfType (TimekeepResponse 0 100), TimesyncStateUpdated],
         missingPeerResponseTimeout := \<not> isLocal (heap w 0)\<rparr>"
    and "nowCalls (onReceivedMessage w 0 (TimekeepResponse 0 100)) = Suc (nowCalls w)"
    and "timeSource (onReceivedMessage w 0 (TimekeepResponse 0 100)) = timeSource w"
    and "localPeer (onReceivedMessage w 0 (TimekeepResponse 0 100)) = localPeer w"
  using assms
  by (simp_all add: onReceivedMessage_def on_timekeepResponse_def Let_def now_def emit_def
      push_def full_def TIMESYNC_INIT_REQUEST_COUNT_def update_peer_def managerEmit_def)

lemma example_probes:
  "k \<le> 9 \<Longrightarrow>
   (let w = run example_world (replicate k (0, Receive (TimekeepResponse 0 100)))
    in buffer (timedeltas (heap w 0)) = map (\<lambda>i. 100 - real i / 2) [0..<k] \<and>
       maxEntries (timedeltas (heap w 0)) = 100 \<and>
       timeDelta (heap w 0) = 0 \<and>
       constructorListeners (heap w 0) \<and>
       nowCalls w = k \<and> timeSource w = real \<and> localPeer w = 5)"
proof (induction k)
  case 0
  show ?case
    by (simp add: run_def example_world_def new_Peer_def managerEmit_def empty_world_def
        new_BasicNumericStatsTracker_def TIME_DELTAS_TO_KEEP_def)
next
  case (Suc k)
  let ?w = "run example_world (replicate k (0, Receive (TimekeepResponse 0 100)))"
  from Suc have ih:
    "buffer (timedeltas (heap ?w 0)) = map (\<lambda>i. 100 - real i / 2) [0..<k]"
    "maxEntries (timedeltas (heap ?w 0)) = 100"
    "timeDelta (heap ?w 0) = 0"
    "constructorListeners (heap ?w 0)"
    "nowCalls ?w = k" "timeSource ?w = real" "localPeer ?w = 5"
    by (simp_all add: Let_def)
  from Suc.prems ih have len: "length (buffer (timedeltas (heap ?w 0))) < 9"
    by simp
  note st = example_probe_step [OF ih(4) len ih(2)]
  show ?case
    unfolding Let_def replicate_Suc_snoc run_snoc
    by (simp add: st ih replicate_append_same)
qed

lemma example_history_facts:
  "buffer (timedeltas (heap (run example_world example_history) 0))
     = [100, 99.5, 99, 98.5, 98, 97.5, 97, 96.5, 96]"
  "maxEntries (timedeltas (heap (run example_world example_history) 0)) = 100"
  "timeDelta (heap (run example_world example_history) 0) = 0"
  "nowCalls (run example_world example_history) = 9"
  "timeSource (run example_world example_history) = real"
  "localPeer (run example_world example_history) = 5"
  using example_probes [of 9]
  by (simp_all add: example_history_def Let_def upt_rec [of _ "numeral _"] upt_rec [of _ "Suc _"])

theorem timeDelta_reassignment_witness:
  "reassigned (run example_world example_history)
     (on_timekeepResponse (run example_world example_history) 0 0 100) 0 \<and>
   timeDelta (heap (run example_world example_history) 0) = 0 \<and>
   median (timedeltas (heap (on_timekeepResponse (run example_world example_history) 0 0 100) 0))
     = Some (timeDelta (heap (on_timekeepResponse (run example_world example_history) 0 0 100) 0)) \<and>
   \<bar>timeDelta (heap (on_timekeepResponse (run example_world example_history) 0 0 100) 0)
      - timeDelta (heap (run example_world example_history) 0)\<bar> > 5 \<and>
   emitted (heap (on_timekeepResponse (run example_world example_history) 0 0 100) 0)
     = emitted (heap (run example_world example_history) 0)
         @ [TimedeltaUpdated, TimesyncStateUpdated] \<and>
   length (buffer (timedeltas
     (heap (on_timekeepResponse (run example_world example_history) 0 0 100) 0))) \<le> 100"
proof -
  let ?w = "run example_world example_history"
  let ?w' = "on_timekeepResponse ?w 0 0 100"
  have ring: "buffer (timedeltas (heap ?w' 0))
      = [100, 99.5, 99, 98.5, 98, 97.5, 97, 96.5, 96, 95.5]"
    by (simp add: handler_ring example_history_facts push_def)
  have "sort [100, 99.5, 99, 98.5, 98, 97.5, 97, 96.5, 96, 95.5 :: real]
      = [95.5, 96, 96.5, 97, 97.5, 98, 98.5, 99, 99.5, 100]"
    by simp
  then have med: "median (timedeltas (heap ?w' 0)) = Some 97.75"
    by (simp add: median_def ring)
  have re: "reassigned ?w ?w' 0"
    by (simp add: reassigned_def full_def ring med example_history_facts
        TIMESYNC_INIT_REQUEST_COUNT_def MS_DIFF_TO_UPDATE_TIME_DELTA_def)
  show ?thesis
    using timeDelta_reassignment [of empty_world 0 example_descriptor example_history 0 100] re
    by (simp add: Let_def example_world_def [symmetric] example_history_facts)
qed

subsection \<open>Duplicate peers\<close>

lemma heap_destroy_other: "j \<noteq> i \<Longrightarrow> heap (destroy w i opts) j = heap w j"
  by (simp add: destroy_def Let_def setState_def unregisterPeer_def managerEmit_def
      sendControllerMessage_def)

lemma uuid_destroy [simp]: "uuid (heap (destroy w i opts) j) = uuid (heap w j)"
  by (simp add: destroy_def Let_def setState_def unregisterPeer_def managerEmit_def
      sendControllerMessage_def)

lemma sent_destroy_advertised:
  "state (heap w i) \<noteq> Deleted \<Longrightarrow>
   sent (heap (destroy w i \<lparr>advertiseDestroy = True, canTryReconnect = False\<rparr>) i)
     = sent (heap w i) @ [Disconnect]"
  by (simp add: destroy_def Let_def setState_def unregisterPeer_def managerEmit_def
      sendControllerMessage_def)

lemma getConnectedPeerByUuid_Some:
  "getConnectedPeerByUuid w u = Some e \<Longrightarrow>
   state (heap w e) = Connected \<and> uuid (heap w e) = u \<and> e \<in> set (registry w)"
  by (auto simp add: getConnectedPeerByUuid_def find_Some_iff)

lemma heap_peerInfo_adopt_other:
  "j \<noteq> this \<Longrightarrow> heap (peerInfo_adopt w this d ss) j = heap w j"
  by (simp add: peerInfo_adopt_def Let_def setState_def split: option.split)

lemma state_peerInfo_adopt:
  "state (heap (peerInfo_adopt w this d ss) this)
     = (if state (heap w this) = Deleted then Deleted else Connected)"
  by (simp add: peerInfo_adopt_def Let_def setState_def split: option.split)

lemma descriptor_peerInfo_adopt:
  "uuid (heap (peerInfo_adopt w this d ss) this) = uuid d"
  "instanceUuid (heap (peerInfo_adopt w this d ss) this) = instanceUuid d"
  "name (heap (peerInfo_adopt w this d ss) this) = name d"
  by (simp_all add: peerInfo_adopt_def Let_def setState_def split: option.split)

lemma immediates_peerInfo_adopt:
  "state (heap w this) = Connecting \<Longrightarrow>
   immediates (peerInfo_adopt w this d ss) = immediates w @ [(this, Connected)]"
  by (simp add: peerInfo_adopt_def Let_def setState_def update_peer_def split: option.split)

text \<open>
  C2. A link \<open>this\<close> handles \<open>peerInfo\<close> while the manager finds another peer
  \<open>e\<close> connected under the uuid of the message, \<open>e\<close> being the only connected peer
  with that uuid besides the link itself. If the instance uuid of \<open>e\<close> is the one of
  the message, the link is destroyed and \<open>e\<close> is left as it was; otherwise \<open>e\<close> is
  destroyed after a \<open>disconnect\<close> message was sent on it, and the link, unless it
  was deleted already, adopts the descriptor and is connected. Either way every peer
  that is connected under that uuid afterwards is one and the same peer.
\<close>

theorem peerInfo_duplicate_resolution:
  assumes lookup: "getConnectedPeerByUuid w (uuid d) = Some e"
    and other: "e \<noteq> this"
    and single: "\<forall>j. j \<noteq> this \<and> state (heap w j) = Connected \<and> uuid (heap w j) = uuid d
                   \<longrightarrow> j = e"
  shows "(instanceUuid (heap w e) = instanceUuid d \<longrightarrow>
            state (heap (on_peerInfo w this d ss) this) = Deleted \<and>
            heap (on_peerInfo w this d ss) e = heap w e \<and>
            (\<forall>j. state (heap (on_peerInfo w this d ss) j) = Connected \<and>
                 uuid (heap (on_peerInfo w this d ss) j) = uuid d \<longrightarrow> j = e)) \<and>
         (instanceUuid (heap w e) \<noteq> instanceUuid d \<longrightarrow>
            state (heap (on_peerInfo w this d ss) e) = Deleted \<and>
            sent (heap (on_peerInfo w this d ss) e) = sent (heap w e) @ [Disconnect] \<and>
            (state (heap w this) \<noteq> Deleted \<longrightarrow>
               state (heap (on_peerInfo w this d ss) this) = Connected \<and>
               uuid (heap (on_peerInfo w this d ss) this) = uuid d \<and>
               instanceUuid (heap (on_peerInfo w this d ss) this) = instanceUuid d) \<and>
            (\<forall>j. state (heap (on_peerInfo w this d ss) j) = Connected \<and>
                 uuid (heap (on_peerInfo w this d ss) j) = uuid d \<longrightarrow> j = this))"
proof (intro conjI impI)
  assume same: "instanceUuid (heap w e) = instanceUuid d"
  then have eq: "on_peerInfo w this d ss = destroy w this default_destroy_options"
    by (simp add: on_peerInfo_def lookup)
  show "state (heap (on_peerInfo w this d ss) this) = Deleted"
    by (simp add: eq state_destroy)
  show "heap (on_peerInfo w this d ss) e = heap w e"
    using other by (simp add: eq heap_destroy_other)
  show "\<forall>j. state (heap (on_peerInfo w this d ss) j) = Connected \<and>
            uuid (heap (on_peerInfo w this d ss) j) = uuid d \<longrightarrow> j = e"
  proof (intro allI impI)
    fix j
    assume j: "state (heap (on_peerInfo w this d ss) j) = Connected \<and>
               uuid (heap (on_peerInfo w this d ss) j) = uuid d"
    then have "j \<noteq> this"
      by (auto simp add: eq state_destroy)
    with j single show "j = e"
      by (simp add: eq heap_destroy_other)
  qed
next
  assume diff: "instanceUuid (heap w e) \<noteq> instanceUuid d"
  let ?w1 = "destroy w e \<lparr>advertiseDestroy = True, canTryReconnect = False\<rparr>"
  have eq: "on_peerInfo w this d ss = peerInfo_adopt ?w1 this d ss"
    using diff by (simp add: on_peerInfo_def lookup)
  have live: "state (heap w e) \<noteq> Deleted"
    using getConnectedPeerByUuid_Some [OF lookup] by simp
  show "state (heap (on_peerInfo w this d ss) e) = Deleted"
    using other by (simp add: eq heap_peerInfo_adopt_other state_destroy)
  show "sent (heap (on_peerInfo w this d ss) e) = sent (heap w e) @ [Disconnect]"
    using other live by (simp add: eq heap_peerInfo_adopt_other sent_destroy_advertised)
  show "state (heap (on_peerInfo w this d ss) this) = Connected"
    if "state (heap w this) \<noteq> Deleted"
    using that other by (simp add: eq state_peerInfo_adopt heap_destroy_other)
  show "uuid (heap (on_peerInfo w this d ss) this) = uuid d"
    by (simp add: eq descriptor_peerInfo_adopt)
  show "instanceUuid (heap (on_peerInfo w this d ss) this) = instanceUuid d"
    by (simp add: eq descriptor_peerInfo_adopt)
  show "\<forall>j. state (heap (on_peerInfo w this d ss) j) = Connected \<and>
            uuid (heap (on_peerInfo w this d ss) j) = uuid d \<longrightarrow> j = this"
  proof (intro allI impI, rule ccontr)
    fix j
    assume j: "state (heap (on_peerInfo w this d ss) j) = Connected \<and>
               uuid (heap (on_peerInfo w this d ss) j) = uuid d"
      and "j \<noteq> this"
    then have a: "state (heap ?w1 j) = Connected" "uuid (heap w j) = uuid d"
      by (simp_all add: eq heap_peerInfo_adopt_other)
    then have "j \<noteq> e"
      by (auto simp add: state_destroy)
    with a have "state (heap w j) = Connected"
      by (simp add: heap_destroy_other)
    with single \<open>j \<noteq> this\<close> a(2) \<open>j \<noteq> e\<close> show False
      by blast
  qed
qed

lemma two_peer_world_heap:
  "state (heap two_peer_world 0) = Connected" "uuid (heap two_peer_world 0) = ''X''"
  "instanceUuid (heap two_peer_world 0) = ''I1''" "sent (heap two_peer_world 0) = []"
  "state (heap two_peer_world 2) = Connecting"
  "registry two_peer_world = [0, 2]"
  by (simp_all add: two_peer_world_def setState_def new_Peer_def managerEmit_def
      update_peer_def example_descriptor_def empty_world_def)

lemma two_peer_world_lookup: "getConnectedPeerByUuid two_peer_world ''X'' = Some 0"
  by (simp add: getConnectedPeerByUuid_def two_peer_world_heap)

lemma two_peer_world_single:
  "\<forall>j. j \<noteq> 2 \<and> state (heap two_peer_world j) = Connected \<and>
       uuid (heap two_peer_world j) = ''X'' \<longrightarrow> j = 0"
  by (simp add: two_peer_world_def setState_def new_Peer_def managerEmit_def
      update_peer_def example_descriptor_def empty_world_def unallocated_def)

theorem peerInfo_duplicate_resolution_witness:
  "getConnectedPeerByUuid two_peer_world (uuid example_descriptor) = Some 0 \<and>
   state (heap (on_peerInfo two_peer_world 2 example_descriptor None) 2) = Deleted \<and>
   heap (on_peerInfo two_peer_world 2 example_descriptor None) 0 = heap two_peer_world 0 \<and>
   getConnectedPeerByUuid two_peer_world (uuid restarted_descriptor) = Some 0 \<and>
   state (heap (on_peerInfo two_peer_world 2 restarted_descriptor None) 0) = Deleted \<and>
   sent (heap (on_peerInfo two_peer_world 2 restarted_descriptor None) 0) = [Disconnect] \<and>
   state (heap (on_peerInfo two_peer_world 2 restarted_descriptor None) 2) = Connected \<and>
   instanceUuid (heap (on_peerInfo two_peer_world 2 restarted_descriptor None) 2) = ''I2''"
proof -
  have l1: "getConnectedPeerByUuid two_peer_world (uuid example_descriptor) = Some 0"
    by (simp add: example_descriptor_def two_peer_world_lookup)
  have l2: "getConnectedPeerByUuid two_peer_world (uuid restarted_descriptor) = Some 0"
    by (simp add: restarted_descriptor_def two_peer_world_lookup)
  have s1: "\<forall>j. j \<noteq> 2 \<and> state (heap two_peer_world j) = Connected \<and>
       uuid (heap two_peer_world j) = uuid example_descriptor \<longrightarrow> j = 0"
    using two_peer_world_single by (simp add: example_descriptor_def)
  have s2: "\<forall>j. j \<noteq> 2 \<and> state (heap two_peer_world j) = Connected \<and>
       uuid (heap two_peer_world j) = uuid restarted_descriptor \<longrightarrow> j = 0"
    using two_peer_world_single by (simp add: restarted_descriptor_def)
  have n: "(0::nat) \<noteq> 2" by simp
  show ?thesis
    using peerInfo_duplicate_resolution [OF l1 n s1, of None]
      peerInfo_duplicate_resolution [OF l2 n s2, of None] l1 l2
    by (simp add: two_peer_world_heap example_descriptor_def restarted_descriptor_def)
qed

subsection \<open>RTP header round trip\<close>

lemma nat_less_16_cases:
  "s < 16 \<Longrightarrow> s \<in> {0, 1, 2, 3, 4, 5, 6, 7, 8, 9, 10, 11, 12, 13, 14, 15 :: nat}"
  by simp arith

lemma byte_a_roundtrip:
  assumes "s < 16"
  shows "((of_nat ((if e then unat RTP_HEADER_A_EXTENSION else 0) OR s) :: byte)
            AND RTP_HEADER_A_EXTENSION \<noteq> 0) = e"
    and "unat ((of_nat ((if e then unat RTP_HEADER_A_EXTENSION else 0) OR s) :: byte)
            AND RTP_HEADER_A_SOURCE) = s"
  using nat_less_16_cases [OF assms]
  by (auto simp add: RTP_HEADER_A_EXTENSION_def RTP_HEADER_A_SOURCE_def)

lemma byte_b_roundtrip:
  "((of_nat ((if m then unat RTP_HEADER_B_MARKER else 0) OR RTP_PAYLOAD_TYPES_number k) :: byte)
            AND RTP_HEADER_B_MARKER \<noteq> 0) = m"
  "RTP_PAYLOAD_TYPES_name (unat ((of_nat ((if m then unat RTP_HEADER_B_MARKER else 0)
            OR RTP_PAYLOAD_TYPES_number k) :: byte) AND RTP_HEADER_B_PAYLOAD_TYPE)) = Some k"
  by (cases k; cases m;
      simp add: RTP_HEADER_B_MARKER_def RTP_HEADER_B_PAYLOAD_TYPE_def RTP_PAYLOAD_TYPES_name_def)+

lemma uint16_roundtrip:
  assumes "v < 65536"
  shows "unat (of_nat (v div 256) :: byte) * 256 + unat (of_nat v :: byte) = v"
proof -
  have "v div 256 < 256" using assms by simp
  then have "unat (of_nat (v div 256) :: byte) = v div 256"
    by (simp add: unat_of_nat)
  moreover have "unat (of_nat v :: byte) = v mod 256"
    by (simp add: unat_of_nat)
  ultimately show ?thesis by simp
qed

text \<open>
  C5, as stated, fails: the parser returns the payload type as the member name of the
  enum, which is not the number the encoder was given. The header of a sync packet
  comes back with \<open>'sync'\<close> in place of 0x54.
\<close>

theorem rtp_roundtrip_counterexample:
  "parseRtpHeader (getRtpHeader example_header)
     = Inr (example_header\<lparr>payloadType := PayloadName sync\<rparr>) \<and>
   parseRtpHeader (getRtpHeader example_header) \<noteq> Inr example_header"
  by (simp add: parseRtpHeader_def getRtpHeader_def Let_def getUint8_def getUint16_def
      setUint8_def setUint16_def RTP_HEADER_A_EXTENSION_def RTP_HEADER_A_SOURCE_def
      RTP_HEADER_B_MARKER_def RTP_HEADER_B_PAYLOAD_TYPE_def RTP_PAYLOAD_TYPES_name_def
      example_header_def)

text \<open>
  C5, amended. For every header with \<open>source\<close> in [0,15], \<open>seqnum\<close> in [0,65535]
  and as payload type the number of a member of the enum, parsing the four bytes of
  its encoding gives back the extension, the source, the marker and the sequence
  number, and as payload type the name of that member.
\<close>

theorem rtp_roundtrip:
  assumes "source h < 16" and "seqnum h < 65536"
    and "payloadType h = PayloadNumber (RTP_PAYLOAD_TYPES_number k)"
  shows "parseRtpHeader (getRtpHeader h) = Inr (h\<lparr>payloadType := PayloadName k\<rparr>)"
  using assms
  by (simp add: parseRtpHeader_def getRtpHeader_def Let_def getUint8_def getUint16_def
      setUint8_def setUint16_def byte_a_roundtrip byte_b_roundtrip uint16_roundtrip)

theorem rtp_roundtrip_witness:
  "source example_header < 16 \<and> seqnum example_header < 65536 \<and>
   payloadType example_header = PayloadNumber (RTP_PAYLOAD_TYPES_number sync) \<and>
   parseRtpHeader (getRtpHeader example_header)
     = Inr \<lparr>extension = False, source = 0, payloadType = PayloadName sync,
            marker = True, seqnum = 7\<rparr>"
proof -
  have a: "source example_header < 16" "seqnum example_header < 65536"
    "payloadType example_header = PayloadNumber (RTP_PAYLOAD_TYPES_number sync)"
    by (simp_all add: example_header_def)
  show ?thesis
    using rtp_roundtrip [OF a] a by (simp add: example_header_def)
qed

subsection \<open>The receive path\<close>

lemma parseRtpHeader_short: "length message < 4 \<Longrightarrow> parseRtpHeader message = Inl RangeError"
  by (simp add: parseRtpHeader_def getUint8_def getUint16_def)

lemma parseRtpHeader_long:
  "4 \<le> length message \<Longrightarrow>
   parseRtpHeader message =
     Inr \<lparr>extension = (message ! 0 AND RTP_HEADER_A_EXTENSION \<noteq> 0),
          source = unat (message ! 0 AND RTP_HEADER_A_SOURCE),
          payloadType =
            (case RTP_PAYLOAD_TYPES_name (unat (message ! 1 AND RTP_HEADER_B_PAYLOAD_TYPE)) of
               None \<Rightarrow> PayloadUndefined
             | Some k \<Rightarrow> PayloadName k),
          marker = (message ! 1 AND RTP_HEADER_B_MARKER \<noteq> 0),
          seqnum = unat (message ! 2) * 256 + unat (message ! 3)\<rparr>"
  by (simp add: parseRtpHeader_def getUint8_def getUint16_def numeral_3_eq_3)

text \<open>
  C8, as stated, fails on both kinds of malformed packet: an empty datagram makes the
  listener throw, and a datagram with the unknown payload type 0 reaches the higher
  layer as a \<open>message\<close> event.
\<close>

theorem malformed_packet_counterexample:
  "on_message example_socket [] = Inl RangeError \<and>
   on_message example_socket [0x80, 0x00, 0x00, 0x01]
     = Inr (example_socket\<lparr>socketEmitted :=
         [(PayloadTypeEvent PayloadUndefined, UndefinedMessage,
           \<lparr>extension = False, source = 0, payloadType = PayloadUndefined,
            marker = False, seqnum = 1\<rparr>),
          (MessageEvent, UndefinedMessage,
           \<lparr>extension = False, source = 0, payloadType = PayloadUndefined,
            marker = False, seqnum = 1\<rparr>)]\<rparr>)"
  by (simp add: on_message_def parseRtpHeader_short parseRtpHeader_long
      RTP_HEADER_A_EXTENSION_def RTP_HEADER_A_SOURCE_def RTP_HEADER_B_MARKER_def
      RTP_HEADER_B_PAYLOAD_TYPE_def RTP_PAYLOAD_TYPES_name_def example_socket_def
      new_AirplayUdpSocket_def)

text \<open>
  C8, amended. A datagram shorter than the four bytes of a header makes the message
  listener throw a \<open>RangeError\<close>, and nothing is emitted. A datagram of at least
  four bytes whose payload type is not in the known set does not throw and is handed
  to no packet parser, but it is passed on: the socket emits an event named by the
  undefined payload type and then \<open>message\<close>, each with an undefined parsed message
  and the parsed header.
\<close>

theorem malformed_packet_handling:
  "(length message < 4 \<longrightarrow> on_message sock message = Inl RangeError) \<and>
   (4 \<le> length message \<and>
    RTP_PAYLOAD_TYPES_name (unat (message ! 1 AND RTP_HEADER_B_PAYLOAD_TYPE)) = None \<longrightarrow>
      (\<exists>header. parseRtpHeader message = Inr header \<and>
         payloadType header = PayloadUndefined \<and>
         on_message sock message
           = Inr (sock\<lparr>socketEmitted := socketEmitted sock @
                   [(PayloadTypeEvent PayloadUndefined, UndefinedMessage, header),
                    (MessageEvent, UndefinedMessage, header)]\<rparr>)))"
  by (auto simp add: on_message_def parseRtpHeader_short parseRtpHeader_long)

theorem malformed_packet_handling_witness:
  "length [0x80 :: byte] < 4 \<and> on_message example_socket [0x80] = Inl RangeError \<and>
   4 \<le> length [0x80, 0x7f, 0x00, 0x01 :: byte] \<and>
   RTP_PAYLOAD_TYPES_name (unat ([0x80, 0x7f, 0x00, 0x01 :: byte] ! 1
      AND RTP_HEADER_B_PAYLOAD_TYPE)) = None \<and>
   (\<exists>header. on_message example_socket [0x80, 0x7f, 0x00, 0x01]
      = Inr (example_socket\<lparr>socketEmitted := socketEmitted example_socket @
               [(PayloadTypeEvent PayloadUndefined, UndefinedMessage, header),
                (MessageEvent, UndefinedMessage, header)]\<rparr>))"
proof -
  have n: "RTP_PAYLOAD_TYPES_name (unat ([0x80, 0x7f, 0x00, 0x01 :: byte] ! 1
      AND RTP_HEADER_B_PAYLOAD_TYPE)) = None"
    by (simp add: RTP_PAYLOAD_TYPES_name_def RTP_HEADER_B_PAYLOAD_TYPE_def)
  show ?thesis
    using malformed_packet_handling [of "[0x80]" example_socket]
      malformed_packet_handling [of "[0x80, 0x7f, 0x00, 0x01]" example_socket] n
    by auto
qed

subsection \<open>Port acquisition\<close>

lemma bindToPort_loop_first_free:
  assumes "serverPort sock \<le> q"
    and "\<forall>p. serverPort sock \<le> p \<and> p < q \<longrightarrow> os p = BindError (Some ''EADDRINUSE'')"
    and "os q \<noteq> BindError (Some ''EADDRINUSE'')"
  shows "bindToPort_loop os sock =
     Some (case os q of
             Listening \<Rightarrow> Inr (sock\<lparr>serverPort := q\<rparr>)
           | BindError code \<Rightarrow> Inl (code, sock\<lparr>serverPort := q\<rparr>))"
  using assms
proof (induction "nat (q - serverPort sock)" arbitrary: sock)
  case 0
  then have "serverPort sock = q" by simp
  with 0 show ?case
    by (subst bindToPort_loop.simps) (auto split: bind_result.split)
next
  case (Suc n)
  let ?next = "sock\<lparr>serverPort := serverPort sock + 1\<rparr>"
  from Suc have lt: "serverPort sock < q" by simp
  with Suc.prems have busy: "os (serverPort sock) = BindError (Some ''EADDRINUSE'')"
    by simp
  have "bindToPort_loop os ?next =
     Some (case os q of
             Listening \<Rightarrow> Inr (?next\<lparr>serverPort := q\<rparr>)
           | BindError code \<Rightarrow> Inl (code, ?next\<lparr>serverPort := q\<rparr>))"
  proof (rule Suc.hyps(1))
    show "n = nat (q - serverPort ?next)" using Suc.hyps(2) by simp
    show "serverPort ?next \<le> q" using lt by simp
    show "\<forall>p. serverPort ?next \<le> p \<and> p < q \<longrightarrow> os p = BindError (Some ''EADDRINUSE'')"
      using Suc.prems(2) by simp
    show "os q \<noteq> BindError (Some ''EADDRINUSE'')" by (rule Suc.prems(3))
  qed
  then show ?case
    by (subst bindToPort_loop.simps) (cases "os q"; simp add: busy)
qed

text \<open>
  C7. \<open>bindToPort(P)\<close>, when the ports from \<open>P\<close> up to but not including \<open>q\<close>
  fail with \<open>EADDRINUSE\<close> and the bind of \<open>q\<close> does not, returns: successfully
  with \<open>serverPort = q\<close> when the bind of \<open>q\<close> succeeds, and with the error of
  that bind re-thrown when it fails with another code.
\<close>

theorem bindToPort_first_free:
  assumes "P \<le> q"
    and "\<forall>p. P \<le> p \<and> p < q \<longrightarrow> os p = BindError (Some ''EADDRINUSE'')"
    and "os q \<noteq> BindError (Some ''EADDRINUSE'')"
  shows "bindToPort os sock P =
     Some (case os q of
             Listening \<Rightarrow> Inr (sock\<lparr>serverPort := q\<rparr>)
           | BindError code \<Rightarrow> Inl (code, sock\<lparr>serverPort := q\<rparr>))"
  using bindToPort_loop_first_free [of "sock\<lparr>serverPort := P\<rparr>" q os] assms
  by (cases "os q") (simp_all add: bindToPort_def)

theorem bindToPort_first_free_witness:
  "bindToPort two_ports_busy (new_AirplayUdpSocket ''speaker.local'') 6000
     = Some (Inr ((new_AirplayUdpSocket ''speaker.local'')\<lparr>serverPort := 6002\<rparr>)) \<and>
   bindToPort third_port_denied (new_AirplayUdpSocket ''speaker.local'') 6000
     = Some (Inl (Some ''EACCES'', (new_AirplayUdpSocket ''speaker.local'')\<lparr>serverPort := 6002\<rparr>))"
proof -
  have a: "(6000 :: int) \<le> 6002" by simp
  have b: "\<forall>p. 6000 \<le> p \<and> p < 6002 \<longrightarrow> two_ports_busy p = BindError (Some ''EADDRINUSE'')"
    by (auto simp add: two_ports_busy_def)
  have c: "two_ports_busy 6002 \<noteq> BindError (Some ''EADDRINUSE'')"
    by (simp add: two_ports_busy_def)
  have b': "\<forall>p. 6000 \<le> p \<and> p < 6002 \<longrightarrow> third_port_denied p = BindError (Some ''EADDRINUSE'')"
    by (auto simp add: third_port_denied_def)
  have c': "third_port_denied 6002 \<noteq> BindError (Some ''EADDRINUSE'')"
    by (simp add: third_port_denied_def)
  have d: "two_ports_busy 6002 = Listening"
    "third_port_denied 6002 = BindError (Some ''EACCES'')"
    by (simp_all add: two_ports_busy_def third_port_denied_def)
  show ?thesis
    using bindToPort_first_free [OF a b c, of "new_AirplayUdpSocket ''speaker.local''"]
      bindToPort_first_free [OF a b' c', of "new_AirplayUdpSocket ''speaker.local''"]
    by (simp add: d)
qed

text \<open>When every port from \<open>P\<close> on is in use, the call never returns.\<close>

lemma bindToPort_loop_returns:
  assumes "bindToPort_loop os sock = Some r"
  shows "\<exists>q. serverPort sock \<le> q \<and> os q \<noteq> BindError (Some ''EADDRINUSE'')"
proof (rule bindToPort_loop.raw_induct
    [where P = "\<lambda>os sock r. \<exists>q. serverPort sock \<le> q \<and> os q \<noteq> BindError (Some ''EADDRINUSE'')",
      OF _ assms])
  fix f os sock r
  assume ih: "\<And>os' sock' y. f os' sock' = Some y \<Longrightarrow>
      \<exists>q. serverPort sock' \<le> q \<and> os' q \<noteq> BindError (Some ''EADDRINUSE'')"
    and step: "(case os (serverPort sock) of
        Listening \<Rightarrow> Some (Inr sock)
      | BindError code \<Rightarrow>
          if code \<noteq> Some ''EADDRINUSE'' then Some (Inl (code, sock))
          else f os (sock\<lparr>serverPort := serverPort sock + 1\<rparr>)) = Some r"
  show "\<exists>q. serverPort sock \<le> q \<and> os q \<noteq> BindError (Some ''EADDRINUSE'')"
  proof (cases "os (serverPort sock) = BindError (Some ''EADDRINUSE'')")
    case True
    with step have "f os (sock\<lparr>serverPort := serverPort sock + 1\<rparr>) = Some r"
      by simp
    from ih [OF this] obtain q
      where "serverPort sock + 1 \<le> q" "os q \<noteq> BindError (Some ''EADDRINUSE'')"
      by auto
    then show ?thesis by (intro exI [of _ q]) simp
  next
    case False
    then show ?thesis by (intro exI [of _ "serverPort sock"]) simp
  qed
qed

lemma bindToPort_never_returns:
  "\<forall>p. P \<le> p \<longrightarrow> os p = BindError (Some ''EADDRINUSE'') \<Longrightarrow> bindToPort os sock P = None"
proof (rule ccontr)
  assume busy: "\<forall>p. P \<le> p \<longrightarrow> os p = BindError (Some ''EADDRINUSE'')"
    and "bindToPort os sock P \<noteq> None"
  then obtain r where "bindToPort_loop os (sock\<lparr>serverPort := P\<rparr>) = Some r"
    by (auto simp add: bindToPort_def)
  from bindToPort_loop_returns [OF this] busy show False by auto
qed

subsection \<open>The rendezvous relay\<close>

lemmas StringToNumber_defs =
  StringToNumber_def trim_def StrWhiteSpaceChar_def NonDecimalIntegerLiteral_def
  StrDecimalLiteral_def StrUnsignedDecimalLiteral_def is_digit_def digit_value_def
  digits_value_def ExponentPart_def power10_def

lemma StringToNumber_1: "StringToNumber ''1'' = Finite 1"
  by (simp add: StringToNumber_defs)

text \<open>
  C9, as stated, fails: a body of exactly 1024 characters, sent to the conversation
  \<open>1\<close>, is rejected with status 400 and the store is left as it was.
\<close>

theorem post_messages_counterexample:
  "length (replicate 1024 CHR ''a'') = 1024 \<and>
   post_messages 60 empty_redis
     \<lparr>body = JsString (replicate 1024 CHR ''a''), params_id = JsString ''1''\<rparr>
   = (Thrown 400 ''body should be less than 1024 chars'', empty_redis)"
  by (simp add: post_messages_def)

text \<open>
  The comparison of the id is one of numbers, not of lengths: the three-letter id
  \<open>abc\<close> is no number and is rejected, and an id of seventy zeros is accepted.
\<close>

lemma post_messages_id_not_a_number:
  "post_messages 60 empty_redis \<lparr>body = JsString ''hello'', params_id = JsString ''abc''\<rparr>
   = (Thrown 400 ''conversion_id should be less than 64 chars'', empty_redis)"
  by (simp add: post_messages_def StringToNumber_defs Let_def)

lemma StringToNumber_zeros:
  "StringToNumber (replicate n CHR ''0'') = Finite 0"
proof -
  have t: "trim (replicate n CHR ''0'') = replicate n CHR ''0''"
    by (simp add: trim_def StrWhiteSpaceChar_def dropWhile_replicate)
  have d: "digits_value 10 (replicate n CHR ''0'') = 0"
    unfolding digits_value_def
    by (induction n) (simp_all add: digit_value_def)
  have d0: "digits_value 10 [] = 0"
    by (simp add: digits_value_def)
  have z: "is_digit 10 CHR ''0''"
    by (simp add: is_digit_def digit_value_def)
  have tw: "takeWhile (is_digit 10) (replicate n CHR ''0'') = replicate n CHR ''0''"
    "dropWhile (is_digit 10) (replicate n CHR ''0'') = []"
    using z by (simp_all add: takeWhile_replicate dropWhile_replicate)
  have nd: "NonDecimalIntegerLiteral (replicate n CHR ''0'') = None"
  proof (cases n)
    case 0
    then show ?thesis by (simp add: NonDecimalIntegerLiteral_def)
  next
    case (Suc m)
    then show ?thesis
      by (cases m) (simp_all add: NonDecimalIntegerLiteral_def)
  qed
  show ?thesis
  proof (cases n)
    case 0
    then show ?thesis by (simp add: StringToNumber_def trim_def)
  next
    case (Suc m)
    then have ne: "replicate n CHR ''0'' \<noteq> []" by simp
    have inf: "replicate n CHR ''0'' \<noteq> ''Infinity''"
      using Suc by simp
    have "StrDecimalLiteral (replicate n CHR ''0'') = StrUnsignedDecimalLiteral (replicate n CHR ''0'')"
      using Suc by (simp add: StrDecimalLiteral_def)
    also have "\<dots> = Finite 0"
      using ne inf z d0 by (simp add: StrUnsignedDecimalLiteral_def tw d ExponentPart_def power10_def)
    finally show ?thesis
      using ne by (simp add: StringToNumber_def t nd)
  qed
qed

lemma post_messages_long_id:
  "fst (post_messages 60 empty_redis
     \<lparr>body = JsString ''hello'', params_id = JsString (replicate 70 CHR ''0'')\<rparr>) = Status 204"
  by (simp add: post_messages_def StringToNumber_zeros)

text \<open>
  C9, amended. Every request ends in one of two ways: accepted with status 204, the
  message put at the head of the list of the conversation and the expiry set; or
  rejected with status 400 and the store as it was. A request is accepted only if its
  body is a string of fewer than 1024 characters and its id is a string; a request
  whose body is not a string, or is a string of 1024 characters or more, or whose id
  is not a string, is rejected.
\<close>

theorem post_messages_outcomes:
  "(fst (post_messages t store req) = Status 204 \<or>
    (\<exists>text. post_messages t store req = (Thrown 400 text, store))) \<and>
   (fst (post_messages t store req) = Status 204 \<longrightarrow>
      (\<exists>message conversationId.
         body req = JsString message \<and> length message < 1024 \<and>
         params_id req = JsString conversationId \<and>
         snd (post_messages t store req)
           = expire (lpush store (''conversation:'' @ conversationId) message)
               (''conversation:'' @ conversationId) t \<and>
         lists (snd (post_messages t store req)) (''conversation:'' @ conversationId)
           = message # lists store (''conversation:'' @ conversationId))) \<and>
   ((\<forall>message. body req = JsString message \<longrightarrow> 1024 \<le> length message) \<or>
    (\<forall>conversationId. params_id req \<noteq> JsString conversationId) \<longrightarrow>
      (\<exists>text. post_messages t store req = (Thrown 400 text, store)))"
  by (cases "body req"; cases "params_id req")
     (auto simp add: post_messages_def expire_def lpush_def)

theorem post_messages_outcomes_witness:
  "post_messages 60 empty_redis \<lparr>body = JsString ''hello'', params_id = JsString ''1''\<rparr>
     = (Status 204, expire (lpush empty_redis ''conversation:1'' ''hello'') ''conversation:1'' 60) \<and>
   lists (snd (post_messages 60 empty_redis
       \<lparr>body = JsString ''hello'', params_id = JsString ''1''\<rparr>)) ''conversation:1'' = [''hello''] \<and>
   (\<exists>text. post_messages 60 empty_redis \<lparr>body = JsObject, params_id = JsString ''1''\<rparr>
       = (Thrown 400 text, empty_redis))"
proof -
  have a: "fst (post_messages 60 empty_redis
      \<lparr>body = JsString ''hello'', params_id = JsString ''1''\<rparr>) = Status 204"
    by (simp add: post_messages_def StringToNumber_1)
  show ?thesis
    using post_messages_outcomes [of 60 empty_redis
        "\<lparr>body = JsString ''hello'', params_id = JsString ''1''\<rparr>"]
      post_messages_outcomes [of 60 empty_redis "\<lparr>body = JsObject, params_id = JsString ''1''\<rparr>"]
      a
    by (auto simp add: empty_redis_def prod_eq_iff)
qed

subsection \<open>The resync of the local sink\<close>

lemma setDelayFromLocalNow_value:
  "delayFromLocalNowBuffer (snd (setDelayFromLocalNow w sink)) =
     (if peer (pipedSource sink) = localPeer w
      then Some (timeSource w (nowCalls w) - startedAt (pipedSource sink)
                 - latency (pipedSource sink) - timeSource w (nowCalls w + 1))
      else map_option
             (\<lambda>m. timeSource w (nowCalls w) + m - startedAt (pipedSource sink)
                  - latency (pipedSource sink) - timeSource w (nowCalls w + 1))
             (median (timedeltas (heap w (peer (pipedSource sink))))))"
  by (simp add: setDelayFromLocalNow_def getCurrentTime_def now_def Let_def
      option.map_comp comp_def)

text \<open>
  C6. After every run of the resync, whichever of its three triggers started it (the
  \<open>timedeltaUpdated\<close> event of the peer of the piped source, the \<open>update\<close> event
  of the source, the one-second interval), the shared scalar holds the result of
  \<open>getCurrentTime(true)\<close> of that peer, minus the \<open>startedAt\<close> and the \<open>latency\<close>
  of the source, minus the next reading of the clock. In terms of the clock: with
  \<open>t1\<close> and \<open>t2\<close> its two successive readings, the scalar is
  \<open>t1 + median - startedAt - latency - t2\<close> for a remote peer, without the median
  for the local peer, and no number when the ring of a remote peer is empty.
\<close>

theorem resync_delay:
  "delayFromLocalNowBuffer (snd (sink_handle w sink trigger)) =
     map_option
       (\<lambda>currentTime. currentTime - startedAt (pipedSource sink) - latency (pipedSource sink)
          - fst (now (snd (getCurrentTime w (peer (pipedSource sink)) True))))
       (fst (getCurrentTime w (peer (pipedSource sink)) True)) \<and>
   delayFromLocalNowBuffer (snd (sink_handle w sink trigger)) =
     (if peer (pipedSource sink) = localPeer w
      then Some (timeSource w (nowCalls w) - startedAt (pipedSource sink)
                 - latency (pipedSource sink) - timeSource w (nowCalls w + 1))
      else map_option
             (\<lambda>m. timeSource w (nowCalls w) + m - startedAt (pipedSource sink)
                  - latency (pipedSource sink) - timeSource w (nowCalls w + 1))
             (median (timedeltas (heap w (peer (pipedSource sink)))))) \<and>
   pipedSource (snd (sink_handle w sink trigger)) = pipedSource sink \<and>
   heap (fst (sink_handle w sink trigger)) = heap w"
proof -
  have "sink_handle w sink trigger = setDelayFromLocalNow w sink"
    by (cases trigger) simp_all
  then show ?thesis
    by (simp add: setDelayFromLocalNow_value)
       (simp add: setDelayFromLocalNow_def getCurrentTime_def now_def Let_def
         option.map_comp comp_def split_beta)
qed

theorem resync_delay_witness:
  "delayFromLocalNowBuffer
     (snd (sink_handle (run example_world example_history) example_sink PeerTimedeltaUpdated))
   = Some (- 1103) \<and>
   fst (getCurrentTime (run example_world example_history) 0 True) = Some 107 \<and>
   fst (now (snd (getCurrentTime (run example_world example_history) 0 True))) = 10"
proof -
  let ?w = "run example_world example_history"
  have "sort [100, 99.5, 99, 98.5, 98, 97.5, 97, 96.5, 96 :: real]
      = [96, 96.5, 97, 97.5, 98, 98.5, 99, 99.5, 100]"
    by simp
  then have med: "median (timedeltas (heap ?w 0)) = Some 98"
    by (simp add: median_def example_history_facts)
  have cur: "fst (getCurrentTime ?w 0 True) = Some 107"
    "fst (now (snd (getCurrentTime ?w 0 True))) = 10"
    by (simp_all add: getCurrentTime_def now_def Let_def med example_history_facts)
  show ?thesis
    using resync_delay [of ?w example_sink PeerTimedeltaUpdated] cur
    by (simp add: example_sink_def)
qed

subsection \<open>The timing response\<close>




lemma length_setUint32 [simp]: "length (setUint32 x) = 4"
  by (simp add: setUint32_def Let_def)

lemma length_getNtpTimestamp [simp]: "length (getNtpTimestamp t) = 8"
  by (simp add: getNtpTimestamp_def Let_def)

lemma length_getRtpHeader [simp]: "length (getRtpHeader h) = 4"
  by (simp add: getRtpHeader_def Let_def setUint8_def setUint16_def)

















end
